theory Spec2Isabelle
  imports Complex_Main
begin

section \<open>Python values, errors and text files\<close>

text \<open>
  The module \<^verbatim>\<open>steps/utilities/meshio.py\<close> is Python 2.  Every exception it can raise
  is a value of \<open>error\<close>; a function that may raise returns \<open>error + 'a\<close>, with
  \<open>Inl\<close> the exception.  An \<^verbatim>\<open>assert\<close> that fails is \<open>AssertionError\<close>.
\<close>

datatype error =
    ValueError | IndexError | KeyError | AssertionError | AttributeError
  | UnboundLocalError | IOError | EngineError

definition ebind :: "error + 'a \<Rightarrow> ('a \<Rightarrow> error + 'b) \<Rightarrow> error + 'b" where
  "ebind m f = (case m of Inl e \<Rightarrow> Inl e | Inr x \<Rightarrow> f x)"

definition py_assert :: "bool \<Rightarrow> error + unit" where
  "py_assert b = (if b then Inr () else Inl AssertionError)"

definition newline :: char where
  "newline = CHR 0x0A"

definition is_space :: "char \<Rightarrow> bool" where
  "is_space c = (c = CHR 0x20 \<or> c = CHR 0x09 \<or> c = CHR 0x0A \<or> c = CHR 0x0B
                 \<or> c = CHR 0x0C \<or> c = CHR 0x0D)"

text \<open>
  A text file opened for reading is the string of what is left to read.
  \<^verbatim>\<open>f.readline()\<close> returns the next line with its newline (the rest of the file
  when no newline is left, the empty string at the end of the file).
\<close>

fun readline :: "string \<Rightarrow> string \<times> string" where
  "readline [] = ([], [])"
| "readline (c # cs) =
     (if c = newline then ([c], cs)
      else (case readline cs of (l, r) \<Rightarrow> (c # l, r)))"

text \<open>\<^verbatim>\<open>s.split()\<close>: the maximal runs of characters that are not white space.\<close>

fun split_ws :: "string \<Rightarrow> string \<Rightarrow> string list" where
  "split_ws acc [] = (if acc = [] then [] else [acc])"
| "split_ws acc (c # cs) =
     (if is_space c then (if acc = [] then split_ws [] cs else acc # split_ws [] cs)
      else split_ws (acc @ [c]) cs)"

definition py_split :: "string \<Rightarrow> string list" where
  "py_split s = split_ws [] s"

text \<open>
  \<^verbatim>\<open>commentstart = line.find('#'); if commentstart != -1: line = line[0:commentstart]\<close>
\<close>

definition strip_comment :: "string \<Rightarrow> string" where
  "strip_comment line = takeWhile (\<lambda>c. c \<noteq> CHR ''#'') line"

text \<open>\<^verbatim>\<open>s.strip()\<close>, \<^verbatim>\<open>s.rstrip()\<close> and \<^verbatim>\<open>s.strip(c)\<close> for a one-character \<^verbatim>\<open>c\<close>.\<close>

definition py_rstrip :: "string \<Rightarrow> string" where
  "py_rstrip s = rev (dropWhile is_space (rev s))"

definition py_strip :: "string \<Rightarrow> string" where
  "py_strip s = py_rstrip (dropWhile is_space s)"

definition strip_char :: "char \<Rightarrow> string \<Rightarrow> string" where
  "strip_char c s = rev (dropWhile (\<lambda>x. x = c) (rev (dropWhile (\<lambda>x. x = c) s)))"

text \<open>
  \<^verbatim>\<open>int(s)\<close> on a string: white space around an optional sign and at least one
  decimal digit; anything else raises \<open>ValueError\<close>.  Python's integers are unbounded.
\<close>

definition digit_val :: "char \<Rightarrow> nat option" where
  "digit_val c =
     (let n = (of_char c :: nat) in if 48 \<le> n \<and> n \<le> 57 then Some (n - 48) else None)"

fun digits_val :: "nat \<Rightarrow> string \<Rightarrow> nat option" where
  "digits_val acc [] = Some acc"
| "digits_val acc (c # cs) =
     (case digit_val c of None \<Rightarrow> None | Some d \<Rightarrow> digits_val (10 * acc + d) cs)"

definition py_nat :: "string \<Rightarrow> nat option" where
  "py_nat s = (if s = [] then None else digits_val 0 s)"

definition py_int :: "string \<Rightarrow> int option" where
  "py_int s =
     (case py_strip s of
        [] \<Rightarrow> None
      | c # cs \<Rightarrow>
          if c = CHR ''-'' then map_option (\<lambda>n. - int n) (py_nat cs)
          else if c = CHR ''+'' then map_option int (py_nat cs)
          else map_option int (py_nat (c # cs)))"

definition int_of :: "string \<Rightarrow> error + int" where
  "int_of s = (case py_int s of None \<Rightarrow> Inl ValueError | Some n \<Rightarrow> Inr n)"

text \<open>
  \<^verbatim>\<open>float(s)\<close> is not modelled: the functions below take the conversion as the
  parameter \<open>pf\<close> (\<open>None\<close> where \<^verbatim>\<open>float\<close> raises \<open>ValueError\<close>) over a type \<open>'r\<close> of
  floating-point values.
\<close>

definition float_of :: "(string \<Rightarrow> 'r option) \<Rightarrow> string \<Rightarrow> error + 'r" where
  "float_of pf s = (case pf s of None \<Rightarrow> Inl ValueError | Some x \<Rightarrow> Inr x)"

text \<open>\<^verbatim>\<open>tokens[k]\<close> for a constant \<open>k \<ge> 0\<close>, and the conversions of a token.\<close>

definition tok :: "string list \<Rightarrow> nat \<Rightarrow> error + string" where
  "tok ts k = (if k < length ts then Inr (ts ! k) else Inl IndexError)"

definition int_tok :: "string list \<Rightarrow> nat \<Rightarrow> error + int" where
  "int_tok ts k = ebind (tok ts k) int_of"

definition float_tok :: "(string \<Rightarrow> 'r option) \<Rightarrow> string list \<Rightarrow> nat \<Rightarrow> error + 'r" where
  "float_tok pf ts k = ebind (tok ts k) (float_of pf)"

text \<open>
  A numpy array made by \<^verbatim>\<open>numpy.empty\<close> holds whatever the memory held: a cell that
  was never written is \<open>None\<close>.  A two-dimensional array is the list of its rows, and a
  row index \<open>i\<close> is taken as numpy takes it: a negative index counts from the end,
  and an index outside \<open>[-n, n)\<close> raises \<open>IndexError\<close>.
\<close>

definition np_index :: "nat \<Rightarrow> int \<Rightarrow> error + nat" where
  "np_index n i =
     (if 0 \<le> i \<and> i < int n then Inr (nat i)
      else if - int n \<le> i \<and> i < 0 then Inr (nat (i + int n))
      else Inl IndexError)"

definition flatten :: "nat \<Rightarrow> 'a list option list \<Rightarrow> 'a option list" where
  "flatten w rows =
     concat (map (\<lambda>r. case r of None \<Rightarrow> replicate w None | Some xs \<Rightarrow> map Some xs) rows)"

section \<open>The TetGen importer\<close>

subsection \<open>The .node file\<close>

text \<open>
  The body of the loop over \<^verbatim>\<open>nodeno\<close> for a line with tokens.  The state is
  \<^verbatim>\<open>idxshift\<close> and the array \<^verbatim>\<open>nodes\<close>.  Python evaluates the right-hand side of
  \<^verbatim>\<open>nodes[idx2,0] = float(tokens[1])\<close> before it indexes the array, and the three
  stores of a row happen together or the call raises.
\<close>

definition node_step ::
  "(string \<Rightarrow> 'r option) \<Rightarrow> nat \<Rightarrow> string list \<Rightarrow> int \<times> 'r list option list
     \<Rightarrow> error + (int \<times> 'r list option list)" where
  "node_step pf nodeno tokens st =
     (case st of (idxshift, nodes) \<Rightarrow>
        ebind (int_tok tokens 0) (\<lambda>nodeidx.
        let idxshift' = (if nodeno = 0 then nodeidx else idxshift);
            idx2 = nodeidx - idxshift'
        in
        ebind (float_tok pf tokens 1) (\<lambda>x.
        ebind (np_index (length nodes) idx2) (\<lambda>j.
        ebind (float_tok pf tokens 2) (\<lambda>y.
        ebind (float_tok pf tokens 3) (\<lambda>z.
        Inr (idxshift', nodes[j := Some [x, y, z]])))))))"

text \<open>
  \<^verbatim>\<open>for nodeno in xrange(0, nnodes)\<close>: the first argument counts the iterations that
  are left, the second is \<^verbatim>\<open>nodeno\<close>.  Each iteration reads one line; a line without
  tokens is passed over by \<^verbatim>\<open>continue\<close>, which ends that iteration.
\<close>

fun node_loop ::
  "(string \<Rightarrow> 'r option) \<Rightarrow> nat \<Rightarrow> nat \<Rightarrow> string \<Rightarrow> int \<times> 'r list option list
     \<Rightarrow> error + (int \<times> 'r list option list)" where
  "node_loop pf 0 nodeno f st = Inr st"
| "node_loop pf (Suc k) nodeno f st =
     (case readline f of (line, f') \<Rightarrow>
        let tokens = py_split (strip_comment line) in
        if tokens = [] then node_loop pf k (Suc nodeno) f' st
        else (case node_step pf nodeno tokens st of
                Inl e \<Rightarrow> Inl e
              | Inr st' \<Rightarrow> node_loop pf k (Suc nodeno) f' st'))"

text \<open>The header of the .node file, then the loop: \<^verbatim>\<open>idxshift\<close> and \<^verbatim>\<open>nodes\<close>.\<close>

definition read_node ::
  "(string \<Rightarrow> 'r option) \<Rightarrow> string \<Rightarrow> error + (int \<times> 'r list option list)" where
  "read_node pf nodefile =
     (case readline nodefile of (line, f) \<Rightarrow>
        let tokens = py_split line in
        ebind (py_assert (length tokens = 4)) (\<lambda>_.
        ebind (int_tok tokens 0) (\<lambda>nnodes.
        ebind (py_assert (nnodes > 0)) (\<lambda>_.
        ebind (int_tok tokens 1) (\<lambda>ndims.
        ebind (py_assert (ndims = 3)) (\<lambda>_.
        ebind (int_tok tokens 2) (\<lambda>nattribs.
        ebind (int_tok tokens 3) (\<lambda>bmarkers.
        node_loop pf (nat nnodes) 0 f (0, replicate (nat nnodes) None)))))))))"

subsection \<open>The .ele file\<close>

text \<open>
  The state of the loop is the array \<^verbatim>\<open>tets\<close> and the list \<^verbatim>\<open>comps\<close>;
  \<^verbatim>\<open>attridx = 1 + nodespertet\<close>.
\<close>

definition ele_step ::
  "int \<Rightarrow> nat \<Rightarrow> int \<Rightarrow> string list \<Rightarrow> int list option list \<times> int list
     \<Rightarrow> error + (int list option list \<times> int list)" where
  "ele_step idxshift attridx tetregattrib tokens st =
     (case st of (tets, comps) \<Rightarrow>
        ebind (int_tok tokens 0) (\<lambda>t0.
        let tetidx = t0 - idxshift in
        ebind (int_tok tokens 1) (\<lambda>a.
        ebind (np_index (length tets) tetidx) (\<lambda>j.
        ebind (int_tok tokens 2) (\<lambda>b.
        ebind (int_tok tokens 3) (\<lambda>c.
        ebind (int_tok tokens 4) (\<lambda>d.
        let tets' = tets[j := Some [a - idxshift, b - idxshift, c - idxshift, d - idxshift]]
        in
        if tetregattrib = 1
        then ebind (int_tok tokens attridx) (\<lambda>r. Inr (tets', comps @ [r]))
        else Inr (tets', comps))))))))"

fun ele_loop ::
  "int \<Rightarrow> nat \<Rightarrow> int \<Rightarrow> nat \<Rightarrow> string \<Rightarrow> int list option list \<times> int list
     \<Rightarrow> error + (int list option list \<times> int list)" where
  "ele_loop idxshift attridx tetregattrib 0 f st = Inr st"
| "ele_loop idxshift attridx tetregattrib (Suc k) f st =
     (case readline f of (line, f') \<Rightarrow>
        let tokens = py_split (strip_comment line) in
        if tokens = [] then ele_loop idxshift attridx tetregattrib k f' st
        else (case ele_step idxshift attridx tetregattrib tokens st of
                Inl e \<Rightarrow> Inl e
              | Inr st' \<Rightarrow> ele_loop idxshift attridx tetregattrib k f' st'))"

text \<open>
  The header of the .ele file, the loop, and the check after it.  The result is
  \<^verbatim>\<open>ntets\<close>, \<^verbatim>\<open>tets\<close> and \<^verbatim>\<open>comps\<close>.
\<close>

definition read_ele ::
  "int \<Rightarrow> string \<Rightarrow> error + (nat \<times> int list option list \<times> int list)" where
  "read_ele idxshift elefile =
     (case readline elefile of (line, f) \<Rightarrow>
        let tokens = py_split line in
        ebind (py_assert (length tokens = 3)) (\<lambda>_.
        ebind (int_tok tokens 0) (\<lambda>ntets.
        ebind (py_assert (ntets > 0)) (\<lambda>_.
        ebind (int_tok tokens 1) (\<lambda>nodespertet.
        ebind (py_assert (nodespertet = 4 \<or> nodespertet = 10)) (\<lambda>_.
        let attridx = nat (1 + nodespertet) in
        ebind (int_tok tokens 2) (\<lambda>tetregattrib.
        ebind (py_assert (tetregattrib = 0 \<or> tetregattrib = 1)) (\<lambda>_.
        ebind (ele_loop idxshift attridx tetregattrib (nat ntets) f
                 (replicate (nat ntets) None, [])) (\<lambda>(tets, comps).
        ebind (if tetregattrib = 1 then py_assert (length comps = nat ntets) else Inr ()) (\<lambda>_.
        Inr (nat ntets, tets, comps)))))))))))"

subsection \<open>The .face file\<close>

definition face_step ::
  "int \<Rightarrow> int \<Rightarrow> string list \<Rightarrow> int list option list \<times> int list
     \<Rightarrow> error + (int list option list \<times> int list)" where
  "face_step idxshift faceregattrib tokens st =
     (case st of (faces, patches) \<Rightarrow>
        ebind (int_tok tokens 0) (\<lambda>t0.
        let faceidx = t0 - idxshift in
        ebind (int_tok tokens 1) (\<lambda>a.
        ebind (np_index (length faces) faceidx) (\<lambda>j.
        ebind (int_tok tokens 2) (\<lambda>b.
        ebind (int_tok tokens 3) (\<lambda>c.
        let faces' = faces[j := Some [a - idxshift, b - idxshift, c - idxshift]]
        in
        if faceregattrib = 1
        then ebind (int_tok tokens 4) (\<lambda>r. Inr (faces', patches @ [r]))
        else Inr (faces', patches)))))))"

fun face_loop ::
  "int \<Rightarrow> int \<Rightarrow> nat \<Rightarrow> string \<Rightarrow> int list option list \<times> int list
     \<Rightarrow> error + (int list option list \<times> int list)" where
  "face_loop idxshift faceregattrib 0 f st = Inr st"
| "face_loop idxshift faceregattrib (Suc k) f st =
     (case readline f of (line, f') \<Rightarrow>
        let tokens = py_split (strip_comment line) in
        if tokens = [] then face_loop idxshift faceregattrib k f' st
        else (case face_step idxshift faceregattrib tokens st of
                Inl e \<Rightarrow> Inl e
              | Inr st' \<Rightarrow> face_loop idxshift faceregattrib k f' st'))"

text \<open>The result is \<^verbatim>\<open>nfaces\<close>, \<^verbatim>\<open>faces\<close> and \<^verbatim>\<open>patches\<close>.\<close>

definition read_face ::
  "int \<Rightarrow> string \<Rightarrow> error + (nat \<times> int list option list \<times> int list)" where
  "read_face idxshift facefile =
     (case readline facefile of (line, f) \<Rightarrow>
        let tokens = py_split line in
        ebind (py_assert (length tokens = 2)) (\<lambda>_.
        ebind (int_tok tokens 0) (\<lambda>nfaces.
        ebind (py_assert (nfaces > 0)) (\<lambda>_.
        ebind (int_tok tokens 1) (\<lambda>faceregattrib.
        ebind (py_assert (faceregattrib = 0 \<or> faceregattrib = 1)) (\<lambda>_.
        ebind (face_loop idxshift faceregattrib (nat nfaces) f
                 (replicate (nat nfaces) None, [])) (\<lambda>(faces, patches).
        ebind (if faceregattrib = 1 then py_assert (length patches = nat nfaces) else Inr ()) (\<lambda>_.
        Inr (nat nfaces, faces, patches)))))))))"

subsection \<open>The mesh object and its annotation\<close>

text \<open>
  The geometry engine \<^verbatim>\<open>steps.geom\<close> is not part of the module.  A mesh object is
  what the module hands to the engine: the arguments of the constructor call (one
  constructor of \<open>geom\<close> for each of the three calls in the module), and the
  compartments and patches made for it, in the order of their making.  The engine's own
  checks of these arguments are outside the model.
\<close>

datatype 'r geom =
    Tetmesh2 "'r list" "int list"
  | Tetmesh3 "'r option list" "int option list" "int option list"
  | Tetmesh10 "'r list" "int list" "'r list" "'r list" "int list"
              "int list" "'r list" "'r list" "int list" "int list"

record tmcomp =
  comp_id :: string
  comp_tets :: "int list"
  comp_volsys :: "string list"

record tmpatch =
  patch_id :: string
  patch_tris :: "int list"
  patch_icomp :: tmcomp
  patch_ocomp :: "tmcomp option"
  patch_surfsys :: "string list"

record 'r tetmesh =
  geometry :: "'r geom"
  comps_of :: "tmcomp list"
  patches_of :: "tmpatch list"

text \<open>
  Modelled from the spec: the engine's \<^verbatim>\<open>tetmesh.getComp(id)\<close>, which is not in the
  module.  The spec resolves a compartment name "against already-created compartments"
  and says that the "resolution must fail loudly if the referenced compartment does not
  exist yet".
\<close>

definition getComp :: "tmcomp list \<Rightarrow> string \<Rightarrow> error + tmcomp" where
  "getComp cs n =
     (case find (\<lambda>c. comp_id c = n) cs of None \<Rightarrow> Inl EngineError | Some c \<Rightarrow> Inr c)"

text \<open>
  The compartments of \<^verbatim>\<open>readTetgen\<close>: one for each distinct region attribute, after
  the check that \<^verbatim>\<open>compmap\<close> has them all.  (Python iterates over the set
  \<^verbatim>\<open>uniqcomps\<close> in an order of its own; the model takes the order of first
  occurrence.)
\<close>

definition make_comps :: "(int \<rightharpoonup> string) \<Rightarrow> nat \<Rightarrow> int list \<Rightarrow> error + tmcomp list" where
  "make_comps compmap ntets comps =
     (let uniqcomps = remdups comps in
      ebind (py_assert (list_all (\<lambda>i. compmap i \<noteq> None) uniqcomps)) (\<lambda>_.
      Inr (map (\<lambda>i. \<lparr>comp_id = the (compmap i),
                      comp_tets = map int (filter (\<lambda>x. comps ! x = i) [0..<ntets]),
                      comp_volsys = []\<rparr>) uniqcomps)))"

fun make_patches ::
  "(int \<rightharpoonup> string) \<Rightarrow> (string \<rightharpoonup> string \<times> string option) \<Rightarrow> tmcomp list \<Rightarrow> nat \<Rightarrow> int list
     \<Rightarrow> int list \<Rightarrow> error + tmpatch list" where
  "make_patches patchmap patchiomap cs nfaces patches [] = Inr []"
| "make_patches patchmap patchiomap cs nfaces patches (i # uniq) =
     (let alltris = map int (filter (\<lambda>x. patches ! x = i) [0..<nfaces]);
          patch_n = the (patchmap i)
      in
      case patchiomap patch_n of
        None \<Rightarrow> Inl KeyError
      | Some (icomp_n, ocomp_n) \<Rightarrow>
          (case getComp cs icomp_n of
             Inl e \<Rightarrow> Inl e
           | Inr icomp \<Rightarrow>
               (case (case ocomp_n of None \<Rightarrow> Inr None
                      | Some n \<Rightarrow> map_sum id Some (getComp cs n)) of
                  Inl e \<Rightarrow> Inl e
                | Inr ocomp \<Rightarrow>
                    (case make_patches patchmap patchiomap cs nfaces patches uniq of
                       Inl e \<Rightarrow> Inl e
                     | Inr ps \<Rightarrow>
                         Inr (\<lparr>patch_id = patch_n, patch_tris = alltris,
                               patch_icomp = icomp, patch_ocomp = ocomp,
                               patch_surfsys = []\<rparr> # ps)))))"

definition annotate ::
  "(int \<rightharpoonup> string) option \<Rightarrow> (int \<rightharpoonup> string) option
     \<Rightarrow> (string \<rightharpoonup> string \<times> string option) option
     \<Rightarrow> nat \<Rightarrow> int list \<Rightarrow> nat \<Rightarrow> int list \<Rightarrow> error + (tmcomp list \<times> tmpatch list)" where
  "annotate compmap patchmap patchiomap ntets comps nfaces patches =
     (case compmap of
        None \<Rightarrow> Inr ([], [])
      | Some cm \<Rightarrow>
          if comps = [] then Inr ([], [])
          else
            ebind (make_comps cm ntets comps) (\<lambda>cs.
            case (patchmap, patchiomap) of
              (Some pm, Some pio) \<Rightarrow>
                if patches = [] then Inr (cs, [])
                else
                  let uniqpatches = remdups patches in
                  ebind (py_assert (list_all (\<lambda>i. pm i \<noteq> None) uniqpatches)) (\<lambda>_.
                  ebind (make_patches pm pio cs nfaces patches uniqpatches) (\<lambda>ps.
                  Inr (cs, ps)))
            | _ \<Rightarrow> Inr (cs, [])))"

subsection \<open>readTetgen\<close>

text \<open>
  The three files \<^verbatim>\<open>pathroot + '.node'\<close>, \<^verbatim>\<open>'.ele'\<close> and \<^verbatim>\<open>'.face'\<close> are given by
  their contents, \<open>None\<close> for a file that does not exist.  The function returns
  \<^verbatim>\<open>None\<close> when the .node or the .ele file is missing, and the tuple
  \<^verbatim>\<open>(tetmesh, comps, patches)\<close> at its end.  With no .face file the variable
  \<^verbatim>\<open>faces\<close> keeps its first value \<^verbatim>\<open>None\<close>, and \<^verbatim>\<open>faces.flatten()\<close> is an attribute
  access on \<^verbatim>\<open>None\<close>.
\<close>

definition readTetgen ::
  "(string \<Rightarrow> 'r option) \<Rightarrow> string option \<Rightarrow> string option \<Rightarrow> string option
     \<Rightarrow> (int \<rightharpoonup> string) option \<Rightarrow> (int \<rightharpoonup> string) option
     \<Rightarrow> (string \<rightharpoonup> string \<times> string option) option
     \<Rightarrow> error + ('r tetmesh \<times> int list option \<times> int list option) option" where
  "readTetgen pf nodefile elefile facefile compmap patchmap patchiomap =
     (case nodefile of
        None \<Rightarrow> Inr None
      | Some nf \<Rightarrow>
     (case elefile of
        None \<Rightarrow> Inr None
      | Some ef \<Rightarrow>
        ebind (read_node pf nf) (\<lambda>(idxshift, nodes).
        ebind (read_ele idxshift ef) (\<lambda>(ntets, tets, comps).
        ebind (case facefile of
                 None \<Rightarrow> Inr (0, None, [])
               | Some ff \<Rightarrow>
                   ebind (read_face idxshift ff) (\<lambda>(nfaces, faces, patches).
                   Inr (nfaces, Some faces, patches))) (\<lambda>(nfaces, faces, patches).
        let nodes1 = flatten 3 nodes;
            tets1 = flatten 4 tets
        in
        ebind (case faces of
                 None \<Rightarrow> Inl AttributeError
               | Some fs \<Rightarrow> Inr (flatten 3 fs)) (\<lambda>faces1.
        ebind (annotate compmap patchmap patchiomap ntets comps nfaces patches) (\<lambda>(cs, ps).
        Inr (Some (\<lparr>geometry = Tetmesh3 nodes1 tets1 faces1,
                    comps_of = cs, patches_of = ps\<rparr>,
                   if comps = [] then None else Some comps,
                   if patches = [] then None else Some patches)))))))))"

section \<open>The CUBIT importer\<close>

text \<open>\<^verbatim>\<open>line.replace(',', ' ')\<close>\<close>

definition replace_comma :: "string \<Rightarrow> string" where
  "replace_comma s = map (\<lambda>c. if c = CHR '','' then CHR '' '' else c) s"

text \<open>
  The body of the loop over the node records, for the tokens \<^verbatim>\<open>line\<close>: the list
  \<^verbatim>\<open>node\<close> that is added to \<^verbatim>\<open>pnts\<close>.  The product \<^verbatim>\<open>float(line[1])*scale\<close> is a
  floating-point product: the multiplication is the parameter \<open>fmul\<close>.
\<close>

definition cubit_node ::
  "(string \<Rightarrow> 'r option) \<Rightarrow> ('r \<Rightarrow> 'r \<Rightarrow> 'r) \<Rightarrow> 'r \<Rightarrow> string list \<Rightarrow> error + 'r list" where
  "cubit_node pf fmul scale line =
     ebind (py_assert (length line = 4)) (\<lambda>_.
     ebind (int_tok line 0) (\<lambda>nodidx.
     ebind (float_tok pf line 1) (\<lambda>x.
     ebind (float_tok pf line 2) (\<lambda>y.
     ebind (float_tok pf line 3) (\<lambda>z.
     Inr [fmul x scale, fmul y scale, fmul z scale])))))"

text \<open>
  \<^verbatim>\<open>while(line[0] != '*ELEMENT')\<close>: \<^verbatim>\<open>line\<close> holds the tokens of the line read last,
  and \<^verbatim>\<open>line[0]\<close> raises \<open>IndexError\<close> on a line without tokens (a blank line, or the
  end of the file).  The result is the rest of the file and \<^verbatim>\<open>pnts\<close>.
\<close>

function cubit_node_loop ::
  "(string \<Rightarrow> 'r option) \<Rightarrow> ('r \<Rightarrow> 'r \<Rightarrow> 'r) \<Rightarrow> 'r \<Rightarrow> string list \<Rightarrow> string \<Rightarrow> 'r list
     \<Rightarrow> error + (string \<times> 'r list)" where
  "cubit_node_loop pf fmul scale line f pnts =
     (case line of
        [] \<Rightarrow> Inl IndexError
      | t # ts \<Rightarrow>
          if t = ''*ELEMENT'' then Inr (f, pnts)
          else (case cubit_node pf fmul scale line of
                  Inl e \<Rightarrow> Inl e
                | Inr node \<Rightarrow>
                    (case readline f of (l, f') \<Rightarrow>
                       cubit_node_loop pf fmul scale (py_split (replace_comma l)) f'
                         (pnts @ node))))"
  by pat_completeness auto
termination
proof -
  have len: "length l + length f' = length f" if "readline f = (l, f')" for f l f'
    using that by (induction f arbitrary: l f') (auto split: if_splits prod.splits)
  have step: "length f' + (if py_split (replace_comma l) = [] then 0 else 1) < Suc (length f)"
    if "readline f = (l, f')" for f l f'
  proof (cases f)
    case Nil
    with that show ?thesis by (simp add: py_split_def replace_comma_def)
  next
    case (Cons c cs)
    with that have "l \<noteq> []" by (auto split: if_splits prod.splits)
    with len[OF that] show ?thesis by (cases l) auto
  qed
  show ?thesis
    by (relation "measure (\<lambda>(pf, fmul, scale, line, f, pnts).
                    length f + (if line = [] then 0 else 1))")
       (auto dest!: step[OF sym])
qed

text \<open>
  The body of the loop over the element records for the tokens \<^verbatim>\<open>line\<close>: the list
  \<^verbatim>\<open>element\<close> that is added to \<^verbatim>\<open>tets\<close>.
\<close>

definition cubit_element :: "string list \<Rightarrow> error + int list" where
  "cubit_element line =
     ebind (py_assert (length line = 5)) (\<lambda>_.
     ebind (int_tok line 0) (\<lambda>tetidx.
     ebind (int_tok line 1) (\<lambda>a.
     ebind (int_tok line 2) (\<lambda>b.
     ebind (int_tok line 3) (\<lambda>c.
     ebind (int_tok line 4) (\<lambda>d.
     Inr [a - 1, b - 1, c - 1, d - 1]))))))"

text \<open>\<^verbatim>\<open>while(line)\<close>: to the end of the file, where \<^verbatim>\<open>readline\<close> returns the empty string.\<close>

function cubit_tet_loop :: "string \<Rightarrow> string \<Rightarrow> int list \<Rightarrow> error + int list" where
  "cubit_tet_loop line f tets =
     (if line = [] then Inr tets
      else (case cubit_element (py_split (replace_comma line)) of
              Inl e \<Rightarrow> Inl e
            | Inr element \<Rightarrow>
                (case readline f of (l, f') \<Rightarrow> cubit_tet_loop l f' (tets @ element))))"
  by pat_completeness auto
termination
proof -
  have len: "length l + length f' = length f" if "readline f = (l, f')" for f l f'
    using that by (induction f arbitrary: l f') (auto split: if_splits prod.splits)
  show ?thesis
    by (relation "measure (\<lambda>(line, f, tets). length line + length f)")
       (auto dest!: len[OF sym])
qed

text \<open>
  Modelled from the spec: the engine's counts \<^verbatim>\<open>mesh.nverts\<close> and \<^verbatim>\<open>mesh.ntets\<close> of a
  mesh made by \<^verbatim>\<open>Tetmesh(pnts, tets)\<close>, which are not in the module.  The spec has the
  constructor take "flattened vertex/triangle/tetrahedron index arrays", and the counts
  are those of the triples and quadruples it was given.
\<close>

fun nverts :: "'r geom \<Rightarrow> nat" where
  "nverts (Tetmesh2 pnts tets) = length pnts div 3"
| "nverts (Tetmesh3 nodes tets tris) = length nodes div 3"
| "nverts (Tetmesh10 nodes tris ta tn tt tets tv tb ttr tte) = length nodes div 3"

fun ntets :: "'r geom \<Rightarrow> nat" where
  "ntets (Tetmesh2 pnts tets) = length tets div 4"
| "ntets (Tetmesh3 nodes tets tris) = length tets div 4"
| "ntets (Tetmesh10 nodes tris ta tn tt tets tv tb ttr tte) = length tets div 4"

text \<open>
  \<^verbatim>\<open>readCubit(filename, scale)\<close>; the file is given by its content, \<open>None\<close> when it
  does not exist (\<^verbatim>\<open>open\<close> raises \<open>IOError\<close>).
\<close>

definition readCubit ::
  "(string \<Rightarrow> 'r option) \<Rightarrow> ('r \<Rightarrow> 'r \<Rightarrow> 'r) \<Rightarrow> string option \<Rightarrow> 'r \<Rightarrow> error + 'r tetmesh" where
  "readCubit pf fmul cubfile scale =
     (case cubfile of
        None \<Rightarrow> Inl IOError
      | Some f0 \<Rightarrow>
        case readline f0 of (line1, f1) \<Rightarrow>
        ebind (py_assert (line1 = ''*HEADING\<newline>'')) (\<lambda>_.
        case readline f1 of (line2, f2) \<Rightarrow>
        case readline f2 of (line3, f3) \<Rightarrow>
        ebind (py_assert (line3 = ''*NODE\<newline>'')) (\<lambda>_.
        case readline f3 of (line4, f4) \<Rightarrow>
        ebind (cubit_node_loop pf fmul scale (py_split (replace_comma line4)) f4 [])
          (\<lambda>(f5, pnts).
        ebind (py_assert (length pnts mod 3 = 0)) (\<lambda>_.
        case readline f5 of (line5, f6) \<Rightarrow>
        ebind (cubit_tet_loop line5 f6 []) (\<lambda>tets.
        ebind (py_assert (length tets mod 4 = 0)) (\<lambda>_.
        let mesh = \<lparr>geometry = Tetmesh2 pnts tets, comps_of = [], patches_of = []\<rparr> in
        ebind (py_assert (length pnts div 3 = nverts (geometry mesh))) (\<lambda>_.
        ebind (py_assert (length tets div 4 = ntets (geometry mesh))) (\<lambda>_.
        Inr mesh)))))))))"

section \<open>What a file holds\<close>

text \<open>
  The properties below speak of the records of a file.  \<open>read_lines k f\<close> is the token
  lists of the next \<open>k\<close> lines of \<open>f\<close>, comments removed, and \<open>file_lines f\<close> is all the
  lines of \<open>f\<close>.
\<close>

fun read_lines :: "nat \<Rightarrow> string \<Rightarrow> string list list" where
  "read_lines 0 f = []"
| "read_lines (Suc k) f =
     (case readline f of (line, f') \<Rightarrow> py_split (strip_comment line) # read_lines k f')"

function file_lines :: "string \<Rightarrow> string list" where
  "file_lines f =
     (if f = [] then [] else (case readline f of (l, f') \<Rightarrow> l # file_lines f'))"
  by pat_completeness auto
termination
proof -
  have len: "length l + length f' = length f" if "readline f = (l, f')" for f l f'
    using that by (induction f arbitrary: l f') (auto split: if_splits prod.splits)
  have less: "length f' < length f" if "readline f = (l, f')" "f \<noteq> []" for f l f'
  proof -
    from that have "l \<noteq> []" by (cases f) (auto split: if_splits prod.splits)
    with len[OF that(1)] show ?thesis by (cases l) auto
  qed
  show ?thesis
    by (relation "measure length") (auto dest!: less[OF sym])
qed

text \<open>
  The records of a CUBIT file: the token lists of the lines after the three header
  lines; the node records are those before the first line that starts with
  \<^verbatim>\<open>*ELEMENT\<close>, the element records those after it.
\<close>

definition cubit_records :: "string \<Rightarrow> string list list" where
  "cubit_records f = map (\<lambda>l. py_split (replace_comma l)) (drop 3 (file_lines f))"

definition is_node_record :: "string list \<Rightarrow> bool" where
  "is_node_record ts = (case ts of [] \<Rightarrow> False | t # _ \<Rightarrow> t \<noteq> ''*ELEMENT'')"

definition node_records :: "string \<Rightarrow> string list list" where
  "node_records f = takeWhile is_node_record (cubit_records f)"

definition element_records :: "string \<Rightarrow> string list list" where
  "element_records f = drop (Suc (length (node_records f))) (cubit_records f)"

text \<open>The value a record's field stands for: a coordinate times the scale, a vertex index.\<close>

definition scaled_field ::
  "(string \<Rightarrow> 'r option) \<Rightarrow> ('r \<Rightarrow> 'r \<Rightarrow> 'r) \<Rightarrow> 'r \<Rightarrow> string list \<Rightarrow> nat \<Rightarrow> error + 'r" where
  "scaled_field pf fmul scale ts k = ebind (float_tok pf ts k) (\<lambda>x. Inr (fmul x scale))"

definition vertex_field :: "string list \<Rightarrow> nat \<Rightarrow> error + int" where
  "vertex_field ts k = ebind (int_tok ts k) (\<lambda>n. Inr (n - 1))"

text \<open>
  What the header of an .ele file declares: the number of elements, the nodes of an
  element and the region attribute flag, with \<open>body\<close> the file after the header; and
  the same for a .face file, with the number of faces and the boundary marker flag.
\<close>

definition ele_declares :: "string \<Rightarrow> int \<Rightarrow> int \<Rightarrow> int \<Rightarrow> string \<Rightarrow> bool" where
  "ele_declares elefile n npt flag body =
     (case readline elefile of (h, b) \<Rightarrow>
        b = body \<and> int_tok (py_split h) 0 = Inr n \<and> int_tok (py_split h) 1 = Inr npt
        \<and> int_tok (py_split h) 2 = Inr flag)"

definition face_declares :: "string \<Rightarrow> int \<Rightarrow> int \<Rightarrow> string \<Rightarrow> bool" where
  "face_declares facefile m flag body =
     (case readline facefile of (h, b) \<Rightarrow>
        b = body \<and> int_tok (py_split h) 0 = Inr m \<and> int_tok (py_split h) 1 = Inr flag)"

subsection \<open>Example files\<close>

text \<open>
  A tetrahedron in TetGen's format, numbered from 1, with a region attribute and a
  boundary marker; in the examples a coordinate is a whole number and \<^verbatim>\<open>float\<close> is
  \<open>py_int\<close>.
\<close>

definition ex_node :: string where
  "ex_node = ''4 3 0 0\<newline>1 0 0 0\<newline>2 1 0 0\<newline>3 0 1 0\<newline>4 0 0 1\<newline>''"

definition ex_ele :: string where
  "ex_ele = ''1 4 1\<newline>1 1 2 3 4 7\<newline>''"

definition ex_face :: string where
  "ex_face = ''1 1\<newline>1 1 2 3 5\<newline>''"

text \<open>The same nodes with a comment line between the first and the second record.\<close>

definition ex_node_comment :: string where
  "ex_node_comment =
     ''4 3 0 0\<newline>1 0 0 0\<newline># the other nodes\<newline>2 1 0 0\<newline>3 0 1 0\<newline>4 0 0 1\<newline>''"

text \<open>
  The same mesh with a comment line between the header and the first node, numbered
  from 1 and numbered from 0.
\<close>

definition ex_node_lead1 :: string where
  "ex_node_lead1 =
     ''4 3 0 0\<newline># nodes\<newline>1 0 0 0\<newline>2 1 0 0\<newline>3 0 1 0\<newline>4 0 0 1\<newline>''"

definition ex_node_lead0 :: string where
  "ex_node_lead0 =
     ''4 3 0 0\<newline># nodes\<newline>0 0 0 0\<newline>1 1 0 0\<newline>2 0 1 0\<newline>3 0 0 1\<newline>''"

definition ex_ele0 :: string where
  "ex_ele0 = ''1 4 1\<newline>0 0 1 2 3 7\<newline>''"

definition ex_face0 :: string where
  "ex_face0 = ''1 1\<newline>0 0 1 2 5\<newline>''"

text \<open>A ten-node element with the region attribute 42, and its ten nodes.\<close>

definition ex_node10 :: string where
  "ex_node10 =
     ''10 3 0 0\<newline>1 0 0 0\<newline>2 2 0 0\<newline>3 0 2 0\<newline>4 0 0 2\<newline>5 1 0 0\<newline>6 1 1 0\<newline>7 0 1 0\<newline>8 0 0 1\<newline>9 1 0 1\<newline>10 0 1 1\<newline>''"

definition ex_ele10 :: string where
  "ex_ele10 = ''1 10 1\<newline>1 1 2 3 4 5 6 7 8 9 10 42\<newline>''"

text \<open>Two elements with a blank line between their records.\<close>

definition ex_ele_blank :: string where
  "ex_ele_blank = ''2 4 1\<newline>1 1 2 3 4 7\<newline>\<newline>2 2 3 4 1 7\<newline>''"

text \<open>A CUBIT file of five nodes and one element; the first node has the id 7.\<close>

definition ex_cubit :: string where
  "ex_cubit =
     ''*HEADING\<newline>cubit(tet.inp): 01/01/2009: 10:00:00\<newline>*NODE\<newline>7, 1, 2, 3\<newline>8, 0, 0, 0\<newline>9, 1, 0, 0\<newline>10, 0, 1, 0\<newline>11, 0, 0, 1\<newline>*ELEMENT, TYPE=C3D4, ELSET=EB1\<newline>1, 2, 3, 4, 5\<newline>''"

section \<open>The canonical files\<close>

subsection \<open>More of Python's strings\<close>

text \<open>The slices \<^verbatim>\<open>s[-n:]\<close> and \<^verbatim>\<open>s[a:-b]\<close>; \<^verbatim>\<open>s[:n]\<close> is \<open>take n s\<close>.\<close>

definition slice_last :: "nat \<Rightarrow> string \<Rightarrow> string" where
  "slice_last n s = drop (length s - n) s"

definition slice_mid :: "nat \<Rightarrow> nat \<Rightarrow> string \<Rightarrow> string" where
  "slice_mid a b s = drop a (take (length s - b) s)"

text \<open>
  \<^verbatim>\<open>s.split(sep)\<close> for a separator that is not empty: the pieces between the occurrences
  of \<^verbatim>\<open>sep\<close>, found from the left; the second argument is the piece read so far.
\<close>

fun split_on_aux :: "string \<Rightarrow> string \<Rightarrow> string \<Rightarrow> string list" where
  "split_on_aux sep acc [] = [acc]"
| "split_on_aux sep acc (c # cs) =
     (if sep \<noteq> [] \<and> take (length sep) (c # cs) = sep
      then acc # split_on_aux sep [] (drop (length sep - 1) cs)
      else split_on_aux sep (acc @ [c]) cs)"

definition split_on :: "string \<Rightarrow> string \<Rightarrow> string list" where
  "split_on sep s = split_on_aux sep [] s"

text \<open>\<^verbatim>\<open>str(n)\<close> and \<^verbatim>\<open>repr(n)\<close> of an integer: its decimal digits after the sign.\<close>

definition digit_char :: "nat \<Rightarrow> char" where
  "digit_char d = char_of (48 + d)"

fun nat_str :: "nat \<Rightarrow> string" where
  "nat_str n = (if n < 10 then [digit_char n] else nat_str (n div 10) @ [digit_char (n mod 10)])"

definition istr :: "int \<Rightarrow> string" where
  "istr i = (if i < 0 then CHR ''-'' # nat_str (nat (- i)) else nat_str (nat i))"

text \<open>
  \<^verbatim>\<open>for ct in xrange(nctets): ctets[ct] = int(tettemp[ct])\<close>: the integers of a list of
  tokens, up to the first that is none.
\<close>

fun ints_of :: "string list \<Rightarrow> error + int list" where
  "ints_of [] = Inr []"
| "ints_of (t # ts) =
     (case int_of t of
        Inl e \<Rightarrow> Inl e
      | Inr n \<Rightarrow> (case ints_of ts of Inl e \<Rightarrow> Inl e | Inr ns \<Rightarrow> Inr (n # ns)))"

subsection \<open>Reading the lines of the XML file\<close>

text \<open>
  The opening tag of a list, with its size:
  \<^verbatim>\<open>nodeinfo = xmlfile.readline().strip(); assert(nodeinfo.__len__() > 17);\<close>
  \<^verbatim>\<open>assert(nodeinfo[-2:] == '">'); nnodes = int(nodeinfo[15:-2])\<close>,
  here with 17 and 15 for \<open>minlen\<close> and \<open>start\<close>.  Each of the four functions returns
  what it has read and the rest of the file.
\<close>

definition read_size :: "nat \<Rightarrow> nat \<Rightarrow> string \<Rightarrow> error + (int \<times> string)" where
  "read_size minlen start f =
     (case readline f of (l, f') \<Rightarrow>
        let info = py_strip l in
        ebind (py_assert (length info > minlen)) (\<lambda>_.
        ebind (py_assert (slice_last 2 info = ''\">'')) (\<lambda>_.
        ebind (int_of (slice_mid start 2 info)) (\<lambda>n.
        Inr (n, f')))))"

text \<open>
  The opening tag of an entry:
  \<^verbatim>\<open>idxtemp = xmlfile.readline().strip(); assert(int(idxtemp[13:-2]) == i)\<close>.
\<close>

definition read_idx :: "nat \<Rightarrow> nat \<Rightarrow> string \<Rightarrow> error + string" where
  "read_idx start i f =
     (case readline f of (l, f') \<Rightarrow>
        let idxtemp = py_strip l in
        ebind (int_of (slice_mid start 2 idxtemp)) (\<lambda>v.
        ebind (py_assert (v = int i)) (\<lambda>_.
        Inr f')))"

text \<open>
  An element with its content:
  \<^verbatim>\<open>coordtemp = xmlfile.readline().strip();\<close>
  \<^verbatim>\<open>assert(coordtemp[:8] == '<coords>' and coordtemp[-9:] == '</coords>');\<close>
  \<^verbatim>\<open>coordtemp = coordtemp[8:-9]\<close>, here with \<open>a = 8\<close> and \<open>b = 9\<close>.
\<close>

definition read_content ::
  "string \<Rightarrow> nat \<Rightarrow> string \<Rightarrow> nat \<Rightarrow> string \<Rightarrow> error + (string \<times> string)" where
  "read_content opn a cls b f =
     (case readline f of (l, f') \<Rightarrow>
        let temp = py_strip l in
        ebind (py_assert (take a temp = opn \<and> slice_last b temp = cls)) (\<lambda>_.
        Inr (slice_mid a b temp, f')))"

text \<open>A closing tag: \<^verbatim>\<open>assert(xmlfile.readline().strip() == '</node>')\<close>.\<close>

definition expect_line :: "string \<Rightarrow> string \<Rightarrow> error + string" where
  "expect_line s f =
     (case readline f of (l, f') \<Rightarrow> ebind (py_assert (py_strip l = s)) (\<lambda>_. Inr f'))"

text \<open>
  \<^verbatim>\<open>numpy.zeros(n*3)\<close> raises \<open>ValueError\<close> for a negative size; the loops that fill
  the arrays write their cells in order, so an array is the list of what was written.
\<close>

definition np_zeros :: "int \<Rightarrow> error + unit" where
  "np_zeros n = (if n < 0 then Inl ValueError else Inr ())"

subsection \<open>The nodes\<close>

text \<open>The body of the loop over the nodes: the three coordinates and the rest of the file.\<close>

definition load_node ::
  "(string \<Rightarrow> 'r option) \<Rightarrow> nat \<Rightarrow> string \<Rightarrow> error + ('r list \<times> string)" where
  "load_node pf i f =
     ebind (read_idx 13 i f) (\<lambda>f1.
     ebind (read_content ''<coords>'' 8 ''</coords>'' 9 f1) (\<lambda>(c, f2).
     let coordtemp = split_on '', '' c in
     ebind (float_tok pf coordtemp 0) (\<lambda>x.
     ebind (float_tok pf coordtemp 1) (\<lambda>y.
     ebind (float_tok pf coordtemp 2) (\<lambda>z.
     ebind (expect_line ''</node>'' f2) (\<lambda>f3.
     Inr ([x, y, z], f3)))))))"

fun load_nodes ::
  "(string \<Rightarrow> 'r option) \<Rightarrow> nat \<Rightarrow> nat \<Rightarrow> string \<Rightarrow> 'r list \<Rightarrow> error + ('r list \<times> string)" where
  "load_nodes pf 0 i f nodes_out = Inr (nodes_out, f)"
| "load_nodes pf (Suc k) i f nodes_out =
     (case load_node pf i f of
        Inl e \<Rightarrow> Inl e
      | Inr (row, f') \<Rightarrow> load_nodes pf k (Suc i) f' (nodes_out @ row))"

subsection \<open>The triangles and the tetrahedrons\<close>

text \<open>
  The arrays of the triangles and of the tetrahedrons.  The arrays of the text file
  exist when the text file does (\<^verbatim>\<open>havetxt\<close>); without it they stay empty here and are
  not read before the mesh is made.
\<close>

record 'r tri_arrays =
  tris_out :: "int list"
  triareas_out :: "'r list"
  trinorms_out :: "'r list"
  tritetns_out :: "int list"

record 'r tet_arrays =
  tets_out :: "int list"
  tetvols_out :: "'r list"
  tetbarycs_out :: "'r list"
  tettrins_out :: "int list"
  tettetns_out :: "int list"

text \<open>
  The line of the text file for a triangle:
  \<^verbatim>\<open>line = textfile.readline().rstrip().split(" "); assert(line.__len__() == 6)\<close> and
  the conversions of its fields.  The text file is \<open>None\<close> when it does not exist.
\<close>

definition load_tri_txt ::
  "(string \<Rightarrow> 'r option) \<Rightarrow> string option \<Rightarrow> 'r tri_arrays
     \<Rightarrow> error + ('r tri_arrays \<times> string option)" where
  "load_tri_txt pf textfile arrs =
     (case textfile of
        None \<Rightarrow> Inr (arrs, None)
      | Some t \<Rightarrow>
          (case readline t of (l, t') \<Rightarrow>
             let line = split_on '' '' (py_rstrip l) in
             ebind (py_assert (length line = 6)) (\<lambda>_.
             ebind (float_tok pf line 0) (\<lambda>area.
             ebind (float_tok pf line 1) (\<lambda>n0.
             ebind (float_tok pf line 2) (\<lambda>n1.
             ebind (float_tok pf line 3) (\<lambda>n2.
             ebind (int_tok line 4) (\<lambda>t0.
             ebind (int_tok line 5) (\<lambda>t1.
             Inr (arrs\<lparr>triareas_out := triareas_out arrs @ [area],
                       trinorms_out := trinorms_out arrs @ [n0, n1, n2],
                       tritetns_out := tritetns_out arrs @ [t0, t1]\<rparr>, Some t'))))))))))"

definition load_tri ::
  "(string \<Rightarrow> 'r option) \<Rightarrow> nat \<Rightarrow> string \<Rightarrow> string option \<Rightarrow> 'r tri_arrays
     \<Rightarrow> error + (string \<times> string option \<times> 'r tri_arrays)" where
  "load_tri pf i f textfile arrs =
     ebind (read_idx 12 i f) (\<lambda>f1.
     ebind (read_content ''<nodes>'' 7 ''</nodes>'' 8 f1) (\<lambda>(c, f2).
     let nodetemp = split_on '', '' c in
     ebind (int_tok nodetemp 0) (\<lambda>a.
     ebind (int_tok nodetemp 1) (\<lambda>b.
     ebind (int_tok nodetemp 2) (\<lambda>c.
     ebind (expect_line ''</tri>'' f2) (\<lambda>f3.
     ebind (load_tri_txt pf textfile (arrs\<lparr>tris_out := tris_out arrs @ [a, b, c]\<rparr>))
       (\<lambda>(arrs', textfile').
     Inr (f3, textfile', arrs'))))))))"

fun load_tris ::
  "(string \<Rightarrow> 'r option) \<Rightarrow> nat \<Rightarrow> nat \<Rightarrow> string \<Rightarrow> string option \<Rightarrow> 'r tri_arrays
     \<Rightarrow> error + (string \<times> string option \<times> 'r tri_arrays)" where
  "load_tris pf 0 i f textfile arrs = Inr (f, textfile, arrs)"
| "load_tris pf (Suc k) i f textfile arrs =
     (case load_tri pf i f textfile arrs of
        Inl e \<Rightarrow> Inl e
      | Inr (f', textfile', arrs') \<Rightarrow> load_tris pf k (Suc i) f' textfile' arrs')"

definition load_tet_txt ::
  "(string \<Rightarrow> 'r option) \<Rightarrow> string option \<Rightarrow> 'r tet_arrays
     \<Rightarrow> error + ('r tet_arrays \<times> string option)" where
  "load_tet_txt pf textfile arrs =
     (case textfile of
        None \<Rightarrow> Inr (arrs, None)
      | Some t \<Rightarrow>
          (case readline t of (l, t') \<Rightarrow>
             let line = split_on '' '' (py_rstrip l) in
             ebind (py_assert (length line = 12)) (\<lambda>_.
             ebind (float_tok pf line 0) (\<lambda>vol.
             ebind (float_tok pf line 1) (\<lambda>b0.
             ebind (float_tok pf line 2) (\<lambda>b1.
             ebind (float_tok pf line 3) (\<lambda>b2.
             ebind (int_tok line 4) (\<lambda>r0.
             ebind (int_tok line 5) (\<lambda>r1.
             ebind (int_tok line 6) (\<lambda>r2.
             ebind (int_tok line 7) (\<lambda>r3.
             ebind (int_tok line 8) (\<lambda>e0.
             ebind (int_tok line 9) (\<lambda>e1.
             ebind (int_tok line 10) (\<lambda>e2.
             ebind (int_tok line 11) (\<lambda>e3.
             Inr (arrs\<lparr>tetvols_out := tetvols_out arrs @ [vol],
                       tetbarycs_out := tetbarycs_out arrs @ [b0, b1, b2],
                       tettrins_out := tettrins_out arrs @ [r0, r1, r2, r3],
                       tettetns_out := tettetns_out arrs @ [e0, e1, e2, e3]\<rparr>,
                  Some t'))))))))))))))))"

definition load_tet ::
  "(string \<Rightarrow> 'r option) \<Rightarrow> nat \<Rightarrow> string \<Rightarrow> string option \<Rightarrow> 'r tet_arrays
     \<Rightarrow> error + (string \<times> string option \<times> 'r tet_arrays)" where
  "load_tet pf i f textfile arrs =
     ebind (read_idx 12 i f) (\<lambda>f1.
     ebind (read_content ''<nodes>'' 7 ''</nodes>'' 8 f1) (\<lambda>(c, f2).
     let nodetemp = split_on '', '' c in
     ebind (int_tok nodetemp 0) (\<lambda>a.
     ebind (int_tok nodetemp 1) (\<lambda>b.
     ebind (int_tok nodetemp 2) (\<lambda>c.
     ebind (int_tok nodetemp 3) (\<lambda>d.
     ebind (expect_line ''</tet>'' f2) (\<lambda>f3.
     ebind (load_tet_txt pf textfile (arrs\<lparr>tets_out := tets_out arrs @ [a, b, c, d]\<rparr>))
       (\<lambda>(arrs', textfile').
     Inr (f3, textfile', arrs')))))))))"

fun load_tets ::
  "(string \<Rightarrow> 'r option) \<Rightarrow> nat \<Rightarrow> nat \<Rightarrow> string \<Rightarrow> string option \<Rightarrow> 'r tet_arrays
     \<Rightarrow> error + (string \<times> string option \<times> 'r tet_arrays)" where
  "load_tets pf 0 i f textfile arrs = Inr (f, textfile, arrs)"
| "load_tets pf (Suc k) i f textfile arrs =
     (case load_tet pf i f textfile arrs of
        Inl e \<Rightarrow> Inl e
      | Inr (f', textfile', arrs') \<Rightarrow> load_tets pf k (Suc i) f' textfile' arrs')"

text \<open>
  The count at the head of a section of the text file.  For the nodes it is the first
  line, \<^verbatim>\<open>assert (nnodes == int(textfile.readline()))\<close>; for the triangles and the
  tetrahedrons a line is read and dropped before it (\<open>skip\<close>).
\<close>

definition check_txt_count :: "bool \<Rightarrow> int \<Rightarrow> string option \<Rightarrow> error + string option" where
  "check_txt_count skip n textfile =
     (case textfile of
        None \<Rightarrow> Inr None
      | Some t \<Rightarrow>
          let t1 = (if skip then snd (readline t) else t) in
          (case readline t1 of (l, t2) \<Rightarrow>
             ebind (int_of l) (\<lambda>v.
             ebind (py_assert (n = v)) (\<lambda>_.
             Inr (Some t2)))))"

subsection \<open>The compartments and the patches\<close>

text \<open>
  The body of the loop over the compartments: the compartment made by
  \<^verbatim>\<open>TmComp(idtemp, mesh, ctets)\<close> with the volume systems added to it, and the rest of
  the file.
\<close>

definition load_comp :: "nat \<Rightarrow> string \<Rightarrow> error + (tmcomp \<times> string)" where
  "load_comp i f =
     ebind (read_idx 13 i f) (\<lambda>f1.
     ebind (read_content ''<id>'' 4 ''</id>'' 5 f1) (\<lambda>(idtemp, f2).
     ebind (read_content ''<volsys>'' 8 ''</volsys>'' 9 f2) (\<lambda>(v, f3).
     let volsystemp0 = split_on '','' v;
         volsystemp = (if volsystemp0 ! 0 = [] then [] else volsystemp0)
     in
     ebind (read_content ''<tets>'' 6 ''</tets>'' 7 f3) (\<lambda>(t, f4).
     let tettemp = split_on '','' t in
     ebind (ints_of tettemp) (\<lambda>ctets.
     let c_out = \<lparr>comp_id = idtemp, comp_tets = ctets, comp_volsys = volsystemp\<rparr> in
     ebind (expect_line ''</comp>'' f4) (\<lambda>f5.
     Inr (c_out, f5)))))))"

fun load_comps :: "nat \<Rightarrow> nat \<Rightarrow> string \<Rightarrow> tmcomp list \<Rightarrow> error + (tmcomp list \<times> string)" where
  "load_comps 0 i f comps_out = Inr (comps_out, f)"
| "load_comps (Suc k) i f comps_out =
     (case load_comp i f of
        Inl e \<Rightarrow> Inl e
      | Inr (c_out, f') \<Rightarrow> load_comps k (Suc i) f' (comps_out @ [c_out]))"

text \<open>
  The body of the loop over the patches; \<open>cs\<close> is the compartments of the mesh, where
  \<^verbatim>\<open>mesh.getComp\<close> looks a name up.  The outer compartment is looked up unless its
  name is \<^verbatim>\<open>'null'\<close>.
\<close>

definition load_patch :: "tmcomp list \<Rightarrow> nat \<Rightarrow> string \<Rightarrow> error + (tmpatch \<times> string)" where
  "load_patch cs i f =
     ebind (read_idx 14 i f) (\<lambda>f1.
     ebind (read_content ''<id>'' 4 ''</id>'' 5 f1) (\<lambda>(idtemp, f2).
     ebind (read_content ''<surfsys>'' 9 ''</surfsys>'' 10 f2) (\<lambda>(s, f3).
     let surfsystemp0 = split_on '','' s;
         surfsystemp = (if surfsystemp0 ! 0 = [] then [] else surfsystemp0)
     in
     ebind (read_content ''<icomp>'' 7 ''</icomp>'' 8 f3) (\<lambda>(icomptemp, f4).
     ebind (read_content ''<ocomp>'' 7 ''</ocomp>'' 8 f4) (\<lambda>(ocomptemp, f5).
     ebind (read_content ''<tris>'' 6 ''</tris>'' 7 f5) (\<lambda>(t, f6).
     let tritemp = split_on '','' t in
     ebind (ints_of tritemp) (\<lambda>ptris.
     ebind (getComp cs icomptemp) (\<lambda>icomp.
     ebind (if ocomptemp \<noteq> ''null'' then map_sum id Some (getComp cs ocomptemp)
            else Inr None) (\<lambda>ocomp.
     let p_out = \<lparr>patch_id = idtemp, patch_tris = ptris, patch_icomp = icomp,
                  patch_ocomp = ocomp, patch_surfsys = surfsystemp\<rparr>
     in
     ebind (expect_line ''</patch>'' f6) (\<lambda>f7.
     Inr (p_out, f7)))))))))))"

fun load_patches ::
  "tmcomp list \<Rightarrow> nat \<Rightarrow> nat \<Rightarrow> string \<Rightarrow> tmpatch list \<Rightarrow> error + (tmpatch list \<times> string)" where
  "load_patches cs 0 i f patches_out = Inr (patches_out, f)"
| "load_patches cs (Suc k) i f patches_out =
     (case load_patch cs i f of
        Inl e \<Rightarrow> Inl e
      | Inr (p_out, f') \<Rightarrow> load_patches cs k (Suc i) f' (patches_out @ [p_out]))"

subsection \<open>loadXML\<close>

text \<open>
  The files \<^verbatim>\<open>pathname + '.xml'\<close> and \<^verbatim>\<open>pathname + '.txt'\<close> are given by their
  contents, \<open>None\<close> for a file that does not exist.  The function returns \<^verbatim>\<open>None\<close> when
  the second line of the XML file is not \<^verbatim>\<open><tetmesh>\<close>.  The arrays of the text file
  are bound under \<^verbatim>\<open>if (havetxt)\<close> only, and the call of the constructor names them all.
\<close>

definition loadXML ::
  "(string \<Rightarrow> 'r option) \<Rightarrow> string option \<Rightarrow> string option
     \<Rightarrow> error + ('r tetmesh \<times> tmcomp list \<times> tmpatch list) option" where
  "loadXML pf xmlfile textfile =
     (case xmlfile of
        None \<Rightarrow> Inl IOError
      | Some x0 \<Rightarrow>
        let havetxt = (textfile \<noteq> None) in
        case readline x0 of (info, x1) \<Rightarrow>
        case readline x1 of (l2, x2) \<Rightarrow>
        if py_rstrip l2 \<noteq> ''<tetmesh>'' then Inr None
        else
        ebind (read_size 17 15 x2) (\<lambda>(nnodes, x3).
        ebind (check_txt_count False nnodes textfile) (\<lambda>t1.
        ebind (np_zeros (nnodes * 3)) (\<lambda>_.
        ebind (load_nodes pf (nat nnodes) 0 x3 []) (\<lambda>(nodes_out, x4).
        ebind (expect_line ''</nodes>'' x4) (\<lambda>x5.
        ebind (read_size 21 19 x5) (\<lambda>(ntris, x6).
        ebind (check_txt_count True ntris t1) (\<lambda>t2.
        ebind (np_zeros (ntris * 3)) (\<lambda>_.
        ebind (load_tris pf (nat ntris) 0 x6 t2
                 \<lparr>tris_out = [], triareas_out = [], trinorms_out = [], tritetns_out = []\<rparr>)
          (\<lambda>(x7, t3, tri).
        ebind (expect_line ''</triangles>'' x7) (\<lambda>x8.
        ebind (read_size 24 22 x8) (\<lambda>(ntets, x9).
        ebind (check_txt_count True ntets t3) (\<lambda>t4.
        ebind (np_zeros (ntets * 4)) (\<lambda>_.
        ebind (load_tets pf (nat ntets) 0 x9 t4
                 \<lparr>tets_out = [], tetvols_out = [], tetbarycs_out = [], tettrins_out = [],
                  tettetns_out = []\<rparr>)
          (\<lambda>(x10, t5, tet).
        ebind (expect_line ''</tetrahedrons>'' x10) (\<lambda>x11.
        ebind (if havetxt then Inr () else Inl UnboundLocalError) (\<lambda>_.
        let mesh = Tetmesh10 nodes_out (tris_out tri) (triareas_out tri) (trinorms_out tri)
                     (tritetns_out tri) (tets_out tet) (tetvols_out tet) (tetbarycs_out tet)
                     (tettrins_out tet) (tettetns_out tet)
        in
        ebind (read_size 24 22 x11) (\<lambda>(ncomps, x12).
        ebind (load_comps (nat ncomps) 0 x12 []) (\<lambda>(comps_out, x13).
        ebind (expect_line ''</compartments>'' x13) (\<lambda>x14.
        ebind (read_size 19 17 x14) (\<lambda>(npatches, x15).
        ebind (load_patches comps_out (nat npatches) 0 x15 []) (\<lambda>(patches_out, x16).
        ebind (expect_line ''</patches>'' x16) (\<lambda>x17.
        Inr (Some (\<lparr>geometry = mesh, comps_of = comps_out, patches_of = patches_out\<rparr>,
                   comps_out, patches_out)))))))))))))))))))))))))"

subsection \<open>The mesh that is saved\<close>

text \<open>
  \<^verbatim>\<open>saveXML\<close> reads the mesh through the accessors of the engine, and the mesh is given
  here by what they return: \<^verbatim>\<open>getVertex\<close>; for a triangle \<^verbatim>\<open>getTri\<close>,
  \<^verbatim>\<open>getTriArea\<close>, \<^verbatim>\<open>getTriNorm\<close>, \<^verbatim>\<open>getTriTetNeighb\<close> and the id of
  \<^verbatim>\<open>getTriPatch\<close>; for a tetrahedron \<^verbatim>\<open>getTet\<close>, \<^verbatim>\<open>getTetVol\<close>,
  \<^verbatim>\<open>getTetBarycenter\<close>, \<^verbatim>\<open>getTetTriNeighb\<close>, \<^verbatim>\<open>getTetTetNeighb\<close> and the id of
  \<^verbatim>\<open>getTetComp\<close>; for the compartments of \<^verbatim>\<open>getAllComps\<close> their \<^verbatim>\<open>getID\<close> and
  \<^verbatim>\<open>getVolsys\<close>; for the patches of \<^verbatim>\<open>getAllPatches\<close> their \<^verbatim>\<open>getID\<close>,
  \<^verbatim>\<open>getSurfsys\<close> and the ids of \<^verbatim>\<open>getIComp\<close> and \<^verbatim>\<open>getOComp\<close>.
\<close>

record 'r tri_view =
  tri_nodes :: "int \<times> int \<times> int"
  tri_area :: 'r
  tri_norm :: "'r \<times> 'r \<times> 'r"
  tri_tetneighb :: "int \<times> int"
  tri_patch :: "string option"

record 'r tet_view =
  tet_nodes :: "int \<times> int \<times> int \<times> int"
  tet_vol :: 'r
  tet_baryc :: "'r \<times> 'r \<times> 'r"
  tet_trineighb :: "int \<times> int \<times> int \<times> int"
  tet_tetneighb :: "int \<times> int \<times> int \<times> int"
  tet_comp :: "string option"

record comp_view =
  cv_id :: string
  cv_volsys :: "string list"

record patch_view =
  pv_id :: string
  pv_surfsys :: "string list"
  pv_icomp :: string
  pv_ocomp :: "string option"

record 'r mesh_view =
  mv_vertices :: "('r \<times> 'r \<times> 'r) list"
  mv_triangles :: "'r tri_view list"
  mv_tetrahedra :: "'r tet_view list"
  mv_comps :: "comp_view list"
  mv_patches :: "patch_view list"

subsection \<open>Writing the lines\<close>

text \<open>
  A line of the XML file is \<open>k\<close> tabs, a body and a newline; an element is an opening
  tag, a content and a closing tag.
\<close>

definition xml_line :: "nat \<Rightarrow> string \<Rightarrow> string" where
  "xml_line k body = replicate k (CHR 0x09) @ body @ [newline]"

definition elem :: "string \<Rightarrow> string \<Rightarrow> string \<Rightarrow> string" where
  "elem opn cls content = opn @ content @ cls"

text \<open>
  \<^verbatim>\<open>sep.join(xs)\<close>, and \<^verbatim>\<open>str\<close> of a tuple of two or more items, given the \<^verbatim>\<open>repr\<close>
  of its items.
\<close>

fun py_join :: "string \<Rightarrow> string list \<Rightarrow> string" where
  "py_join sep [] = []"
| "py_join sep [x] = x"
| "py_join sep (x # y # ys) = x @ sep @ py_join sep (y # ys)"

definition tuple_str :: "string list \<Rightarrow> string" where
  "tuple_str items = ''('' @ py_join '', '' items @ '')''"

text \<open>
  \<^verbatim>\<open>str(tetmesh.getVertex(node)).strip(')').strip('(')\<close>, with \<open>frepr\<close> for the \<^verbatim>\<open>repr\<close>
  of a floating-point value, and the same for a tuple of integers.
\<close>

definition coords_text :: "('r \<Rightarrow> string) \<Rightarrow> 'r \<times> 'r \<times> 'r \<Rightarrow> string" where
  "coords_text frepr v =
     (case v of (x, y, z) \<Rightarrow>
        strip_char (CHR ''('') (strip_char (CHR '')'') (tuple_str [frepr x, frepr y, frepr z])))"

definition tri_nodes_text :: "int \<times> int \<times> int \<Rightarrow> string" where
  "tri_nodes_text v =
     (case v of (a, b, c) \<Rightarrow>
        strip_char (CHR ''('') (strip_char (CHR '')'') (tuple_str [istr a, istr b, istr c])))"

definition tet_nodes_text :: "int \<times> int \<times> int \<times> int \<Rightarrow> string" where
  "tet_nodes_text v =
     (case v of (a, b, c, d) \<Rightarrow>
        strip_char (CHR ''('') (strip_char (CHR '')'')
          (tuple_str [istr a, istr b, istr c, istr d])))"

text \<open>
  \<^verbatim>\<open>for v in vsys[c]: if (v != vsys[c][0]): xmlfile.write(','); xmlfile.write(v)\<close>:
  a comma goes before every item that differs from the first.
\<close>

definition join_first :: "('a \<Rightarrow> string) \<Rightarrow> 'a list \<Rightarrow> string" where
  "join_first show xs =
     (case xs of
        [] \<Rightarrow> []
      | x0 # _ \<Rightarrow> concat (map (\<lambda>v. (if v \<noteq> x0 then '','' else []) @ show v) xs))"

subsection \<open>The members of the compartments and of the patches\<close>

text \<open>
  \<^verbatim>\<open>for c in xrange(ncomps): if idtemp == ids[c]: tets[c].append(tet); break\<close>: an
  element goes to the first group that has the id of its owner.
\<close>

fun first_index :: "'a list \<Rightarrow> 'a \<Rightarrow> nat option" where
  "first_index [] x = None"
| "first_index (y # ys) x = (if x = y then Some 0 else map_option Suc (first_index ys x))"

definition assign_member :: "string list \<Rightarrow> nat list list \<Rightarrow> nat \<times> string option \<Rightarrow> nat list list" where
  "assign_member ids groups e =
     (case e of (el, owner) \<Rightarrow>
        (case owner of
           None \<Rightarrow> groups
         | Some idtemp \<Rightarrow>
             (case first_index ids idtemp of
                None \<Rightarrow> groups
              | Some c \<Rightarrow> groups[c := groups ! c @ [el]])))"

definition membership :: "string list \<Rightarrow> string option list \<Rightarrow> nat list list" where
  "membership ids owners =
     foldl (assign_member ids) (replicate (length ids) []) (zip [0..<length owners] owners)"

subsection \<open>saveXML\<close>

fun save_nodes :: "('r \<Rightarrow> string) \<Rightarrow> nat \<Rightarrow> ('r \<times> 'r \<times> 'r) list \<Rightarrow> string" where
  "save_nodes frepr node [] = []"
| "save_nodes frepr node (v # vs) =
     xml_line 2 (elem ''<node idx = \"'' ''\">'' (istr (int node)))
     @ xml_line 3 (elem ''<coords>'' ''</coords>'' (coords_text frepr v))
     @ xml_line 2 ''</node>''
     @ save_nodes frepr (Suc node) vs"

fun save_tris :: "nat \<Rightarrow> 'r tri_view list \<Rightarrow> string" where
  "save_tris tri [] = []"
| "save_tris tri (t # ts) =
     xml_line 2 (elem ''<tri idx = \"'' ''\">'' (istr (int tri)))
     @ xml_line 3 (elem ''<nodes>'' ''</nodes>'' (tri_nodes_text (tri_nodes t)))
     @ xml_line 2 ''</tri>''
     @ save_tris (Suc tri) ts"

text \<open>The line of the text file for a triangle, with \<open>fstr\<close> for \<^verbatim>\<open>str\<close> of a float.\<close>

definition tri_txt :: "('r \<Rightarrow> string) \<Rightarrow> 'r tri_view \<Rightarrow> string" where
  "tri_txt fstr t =
     (case tri_norm t of (n0, n1, n2) \<Rightarrow>
      case tri_tetneighb t of (t0, t1) \<Rightarrow>
        fstr (tri_area t) @ '' ''
        @ fstr n0 @ '' '' @ fstr n1 @ '' '' @ fstr n2 @ '' ''
        @ istr t0 @ '' '' @ istr t1 @ '' ''
        @ [newline])"

fun save_tets :: "nat \<Rightarrow> 'r tet_view list \<Rightarrow> string" where
  "save_tets tet [] = []"
| "save_tets tet (t # ts) =
     xml_line 2 (elem ''<tet idx = \"'' ''\">'' (istr (int tet)))
     @ xml_line 3 (elem ''<nodes>'' ''</nodes>'' (tet_nodes_text (tet_nodes t)))
     @ xml_line 2 ''</tet>''
     @ save_tets (Suc tet) ts"

definition tet_txt :: "('r \<Rightarrow> string) \<Rightarrow> 'r tet_view \<Rightarrow> string" where
  "tet_txt fstr t =
     (case tet_baryc t of (b0, b1, b2) \<Rightarrow>
      case tet_trineighb t of (r0, r1, r2, r3) \<Rightarrow>
      case tet_tetneighb t of (e0, e1, e2, e3) \<Rightarrow>
        fstr (tet_vol t) @ '' ''
        @ fstr b0 @ '' '' @ fstr b1 @ '' '' @ fstr b2 @ '' ''
        @ istr r0 @ '' '' @ istr r1 @ '' '' @ istr r2 @ '' '' @ istr r3 @ '' ''
        @ istr e0 @ '' '' @ istr e1 @ '' '' @ istr e2 @ '' '' @ istr e3 @ '' ''
        @ [newline])"

text \<open>
  The entries of the compartments: \<open>cs\<close> is the compartments that are left and
  \<open>tets\<close> their lists of members.
\<close>

fun save_comps :: "nat \<Rightarrow> comp_view list \<Rightarrow> nat list list \<Rightarrow> string" where
  "save_comps c (cv # cs) (ts # tets) =
     xml_line 2 (elem ''<comp idx = \"'' ''\">'' (istr (int c)))
     @ xml_line 3 (elem ''<id>'' ''</id>'' (cv_id cv))
     @ xml_line 3 (elem ''<volsys>'' ''</volsys>'' (join_first (\<lambda>v. v) (cv_volsys cv)))
     @ xml_line 3 (elem ''<tets>'' ''</tets>'' (join_first (\<lambda>t. istr (int t)) ts))
     @ xml_line 2 ''</comp>''
     @ save_comps (Suc c) cs tets"
| "save_comps c cs tets = []"

fun save_patches :: "nat \<Rightarrow> patch_view list \<Rightarrow> nat list list \<Rightarrow> string" where
  "save_patches p (pv # ps) (ts # tris) =
     xml_line 2 (elem ''<patch idx = \"'' ''\">'' (istr (int p)))
     @ xml_line 3 (elem ''<id>'' ''</id>'' (pv_id pv))
     @ xml_line 3 (elem ''<surfsys>'' ''</surfsys>'' (join_first (\<lambda>s. s) (pv_surfsys pv)))
     @ xml_line 3 (elem ''<icomp>'' ''</icomp>'' (pv_icomp pv))
     @ xml_line 3 (elem ''<ocomp>'' ''</ocomp>''
                     (case pv_ocomp pv of None \<Rightarrow> ''null'' | Some n \<Rightarrow> n))
     @ xml_line 3 (elem ''<tris>'' ''</tris>'' (join_first (\<lambda>t. istr (int t)) ts))
     @ xml_line 2 ''</patch>''
     @ save_patches (Suc p) ps tris"
| "save_patches p ps tris = []"

text \<open>
  What \<^verbatim>\<open>saveXML\<close> writes to \<^verbatim>\<open>pathname + '.xml'\<close> and to \<^verbatim>\<open>pathname + '.txt'\<close>.  The
  argument is a mesh, so the test of \<^verbatim>\<open>tetmesh.__str__()\<close> passes; the two files are
  taken to open.
\<close>

definition saveXML_xml :: "('r \<Rightarrow> string) \<Rightarrow> 'r mesh_view \<Rightarrow> string" where
  "saveXML_xml frepr tetmesh =
     (let nverts = length (mv_vertices tetmesh);
          ntris = length (mv_triangles tetmesh);
          ntets = length (mv_tetrahedra tetmesh);
          comps = mv_comps tetmesh;
          ncomps = length comps;
          tets = membership (map cv_id comps) (map tet_comp (mv_tetrahedra tetmesh));
          patches = mv_patches tetmesh;
          npatches = length patches;
          tris = membership (map pv_id patches) (map tri_patch (mv_triangles tetmesh))
      in
        xml_line 0 ''<?xml version=\"1.0\" encoding=\"ISO-8859-1\"?>''
        @ xml_line 0 ''<tetmesh>''
        @ xml_line 1 (elem ''<nodes size = \"'' ''\">'' (istr (int nverts)))
        @ save_nodes frepr 0 (mv_vertices tetmesh)
        @ xml_line 1 ''</nodes>''
        @ xml_line 1 (elem ''<triangles size = \"'' ''\">'' (istr (int ntris)))
        @ save_tris 0 (mv_triangles tetmesh)
        @ xml_line 1 ''</triangles>''
        @ xml_line 1 (elem ''<tetrahedrons size = \"'' ''\">'' (istr (int ntets)))
        @ save_tets 0 (mv_tetrahedra tetmesh)
        @ xml_line 1 ''</tetrahedrons>''
        @ xml_line 1 (elem ''<compartments size = \"'' ''\">'' (istr (int ncomps)))
        @ save_comps 0 comps tets
        @ xml_line 1 ''</compartments>''
        @ xml_line 1 (elem ''<patches size = \"'' ''\">'' (istr (int npatches)))
        @ save_patches 0 patches tris
        @ xml_line 1 ''</patches>''
        @ ''</tetmesh>'')"

definition saveXML_txt :: "('r \<Rightarrow> string) \<Rightarrow> 'r mesh_view \<Rightarrow> string" where
  "saveXML_txt fstr tetmesh =
     (let nverts = length (mv_vertices tetmesh);
          ntris = length (mv_triangles tetmesh);
          ntets = length (mv_tetrahedra tetmesh)
      in
        istr (int nverts) @ [newline, newline]
        @ istr (int ntris) @ [newline]
        @ concat (map (tri_txt fstr) (mv_triangles tetmesh))
        @ [newline] @ istr (int ntets) @ [newline]
        @ concat (map (tet_txt fstr) (mv_tetrahedra tetmesh)))"

subsection \<open>Example meshes\<close>

text \<open>
  A mesh of one tetrahedron in the compartment \<^verbatim>\<open>cyt\<close> and one triangle in the patch
  \<^verbatim>\<open>memb\<close>, and the same mesh with a second compartment \<^verbatim>\<open>er\<close> that owns no
  tetrahedron.  In the examples a floating-point value is a whole number, written
  and read as an integer.
\<close>

definition ex_mesh :: "int mesh_view" where
  "ex_mesh =
     \<lparr>mv_vertices = [(0, 0, 0), (1, 0, 0), (0, 1, 0), (0, 0, 1)],
      mv_triangles =
        [\<lparr>tri_nodes = (0, 1, 2), tri_area = 5, tri_norm = (0, 0, - 1),
          tri_tetneighb = (0, - 1), tri_patch = Some ''memb''\<rparr>],
      mv_tetrahedra =
        [\<lparr>tet_nodes = (0, 1, 2, 3), tet_vol = 2, tet_baryc = (1, 1, 1),
          tet_trineighb = (0, 1, 2, 3), tet_tetneighb = (- 1, - 1, - 1, - 1),
          tet_comp = Some ''cyt''\<rparr>],
      mv_comps = [\<lparr>cv_id = ''cyt'', cv_volsys = [''vs1'', ''vs2'']\<rparr>],
      mv_patches =
        [\<lparr>pv_id = ''memb'', pv_surfsys = [], pv_icomp = ''cyt'', pv_ocomp = None\<rparr>]\<rparr>"

definition ex_mesh_empty :: "int mesh_view" where
  "ex_mesh_empty =
     ex_mesh\<lparr>mv_comps := [\<lparr>cv_id = ''cyt'', cv_volsys = [''vs1'', ''vs2'']\<rparr>,
                          \<lparr>cv_id = ''er'', cv_volsys = []\<rparr>]\<rparr>"

subsection \<open>The text of a number\<close>

text \<open>
  A text is plain when it has no white space, no comma and no parenthesis: so are the
  texts that Python gives for an integer and for a floating-point value.
\<close>

definition plain_char :: "char \<Rightarrow> bool" where
  "plain_char c = (\<not> is_space c \<and> c \<noteq> CHR '','' \<and> c \<noteq> CHR ''('' \<and> c \<noteq> CHR '')'')"

definition plain :: "string \<Rightarrow> bool" where
  "plain s = list_all plain_char s"

section \<open>Properties of the TetGen importer\<close>

subsection \<open>Errors and successes\<close>

lemma ebind_Inl [simp]: "ebind (Inl e) f = Inl e"
  by (simp add: ebind_def)

lemma ebind_Inr [simp]: "ebind (Inr x) f = f x"
  by (simp add: ebind_def)

lemma ebind_eq_Inr: "ebind m f = Inr y \<longleftrightarrow> (\<exists>x. m = Inr x \<and> f x = Inr y)"
  by (cases m) simp_all

lemma py_assert_eq_Inr [simp]: "py_assert b = Inr u \<longleftrightarrow> b"
  by (simp add: py_assert_def)

lemma py_assert_True [simp]: "py_assert True = Inr ()"
  by (simp add: py_assert_def)

lemma py_assert_False [simp]: "py_assert False = Inl AssertionError"
  by (simp add: py_assert_def)

lemma length_read_lines [simp]: "length (read_lines k f) = k"
  by (induction k arbitrary: f) (auto split: prod.splits)

lemma filter_length_eq: "length (filter P xs) = length xs \<Longrightarrow> filter P xs = xs"
proof (induction xs)
  case Nil
  then show ?case by simp
next
  case (Cons a xs)
  have le: "length (filter P xs) \<le> length xs" by simp
  show ?case
  proof (cases "P a")
    case True
    with Cons show ?thesis by simp
  next
    case False
    with Cons.prems have "length (filter P xs) = Suc (length xs)" by simp
    with le show ?thesis by linarith
  qed
qed

subsection \<open>The region attributes the .ele loop collects\<close>

lemma ele_step_comps:
  assumes "ele_step s a 1 ts (tets0, comps0) = Inr (tets, comps)"
  shows "\<exists>r. int_tok ts a = Inr r \<and> comps = comps0 @ [r]"
  using assms by (auto simp: ele_step_def ebind_eq_Inr Let_def)

lemma ele_loop_comps:
  "ele_loop s a 1 k f (tets0, comps0) = Inr (tets, comps) \<Longrightarrow>
   map Inr comps =
   map Inr comps0 @ map (\<lambda>ts. int_tok ts a) (filter (\<lambda>ts. ts \<noteq> []) (read_lines k f))"
proof (induction k arbitrary: f tets0 comps0)
  case 0
  then show ?case by simp
next
  case (Suc k)
  obtain line f' where rl: "readline f = (line, f')" by (cases "readline f")
  show ?case
  proof (cases "py_split (strip_comment line) = []")
    case True
    with Suc.prems rl have "ele_loop s a 1 k f' (tets0, comps0) = Inr (tets, comps)"
      by simp
    from Suc.IH[OF this] True rl show ?thesis by simp
  next
    case False
    with Suc.prems rl obtain tets1 comps1 where
      st: "ele_step s a 1 (py_split (strip_comment line)) (tets0, comps0) = Inr (tets1, comps1)"
      and lp: "ele_loop s a 1 k f' (tets1, comps1) = Inr (tets, comps)"
      by (auto split: sum.splits)
    from ele_step_comps[OF st] obtain r where
      r: "int_tok (py_split (strip_comment line)) a = Inr r" "comps1 = comps0 @ [r]" by blast
    from Suc.IH[OF lp] r False rl show ?thesis by simp
  qed
qed

lemma read_ele_Inr:
  assumes "ele_declares ef n npt flag body" and "read_ele s ef = Inr (k, tets, comps)"
  shows "k = nat n \<and> 0 < n \<and> (npt = 4 \<or> npt = 10) \<and> (flag = 0 \<or> flag = 1)
         \<and> ele_loop s (nat (1 + npt)) flag (nat n) body (replicate (nat n) None, [])
             = Inr (tets, comps)
         \<and> (flag = 1 \<longrightarrow> length comps = nat n)"
  using assms
  by (auto simp: ele_declares_def read_ele_def ebind_eq_Inr Let_def
           split: prod.splits if_splits)

lemma read_ele_mismatch:
  assumes "ele_declares ef n npt 1 body"
    and "ele_loop s (nat (1 + npt)) 1 (nat n) body (replicate (nat n) None, []) = Inr (tets, comps)"
    and "length comps \<noteq> nat n"
  shows "read_ele s ef = Inl AssertionError"
  using assms
  by (auto simp: ele_declares_def read_ele_def Let_def py_assert_def split: prod.splits)

lemma read_ele_attributes:
  assumes d: "ele_declares ef n npt 1 body" and r: "read_ele s ef = Inr (k, tets, comps)"
  shows "map Inr comps = map (\<lambda>ts. int_tok ts (nat (1 + npt))) (read_lines (nat n) body)"
proof -
  from read_ele_Inr[OF d r] have
    lp: "ele_loop s (nat (1 + npt)) 1 (nat n) body (replicate (nat n) None, []) = Inr (tets, comps)"
    and len: "length comps = nat n" by auto
  let ?recs = "filter (\<lambda>ts. ts \<noteq> []) (read_lines (nat n) body)"
  from ele_loop_comps[OF lp] have eq:
    "map Inr comps = map (\<lambda>ts. int_tok ts (nat (1 + npt))) ?recs" by simp
  then have "length ?recs = length comps" by (metis length_map)
  with len have "?recs = read_lines (nat n) body"
    by (intro filter_length_eq) simp
  with eq show ?thesis by simp
qed

subsection \<open>The boundary markers the .face loop collects\<close>

lemma face_step_patches:
  assumes "face_step s 1 ts (faces0, patches0) = Inr (faces, patches)"
  shows "\<exists>r. int_tok ts 4 = Inr r \<and> patches = patches0 @ [r]"
  using assms by (auto simp: face_step_def ebind_eq_Inr Let_def)

lemma read_face_Inr:
  assumes "face_declares ff m flag body" and "read_face s ff = Inr (k, faces, patches)"
  shows "k = nat m \<and> 0 < m \<and> (flag = 0 \<or> flag = 1)
         \<and> face_loop s flag (nat m) body (replicate (nat m) None, []) = Inr (faces, patches)
         \<and> (flag = 1 \<longrightarrow> length patches = nat m)"
  using assms
  by (auto simp: face_declares_def read_face_def ebind_eq_Inr Let_def
           split: prod.splits if_splits)

lemma read_face_mismatch:
  assumes "face_declares ff m 1 body"
    and "face_loop s 1 (nat m) body (replicate (nat m) None, []) = Inr (faces, patches)"
    and "length patches \<noteq> nat m"
  shows "read_face s ff = Inl AssertionError"
  using assms
  by (auto simp: face_declares_def read_face_def Let_def py_assert_def split: prod.splits)

subsection \<open>What a call of readTetgen that returns has read\<close>

lemma readTetgen_Inr:
  assumes "readTetgen pf (Some nf) (Some ef) ff cm pm pio = Inr (Some (mesh, cs, ps))"
  shows "\<exists>s nodes k tets comps f m faces patches.
           read_node pf nf = Inr (s, nodes) \<and> read_ele s ef = Inr (k, tets, comps)
           \<and> ff = Some f \<and> read_face s f = Inr (m, faces, patches)
           \<and> cs = (if comps = [] then None else Some comps)
           \<and> ps = (if patches = [] then None else Some patches)
           \<and> geometry mesh = Tetmesh3 (flatten 3 nodes) (flatten 4 tets) (flatten 3 faces)"
proof -
  from assms obtain s nodes where n: "read_node pf nf = Inr (s, nodes)"
    by (auto simp: readTetgen_def ebind_eq_Inr)
  from assms n obtain k tets comps where e: "read_ele s ef = Inr (k, tets, comps)"
    by (auto simp: readTetgen_def ebind_eq_Inr)
  from assms n e obtain f where f: "ff = Some f"
    by (cases ff) (auto simp: readTetgen_def ebind_eq_Inr)
  from assms n e f obtain m faces patches where p: "read_face s f = Inr (m, faces, patches)"
    by (auto simp: readTetgen_def ebind_eq_Inr)
  from assms n e f p have
    "cs = (if comps = [] then None else Some comps)"
    "ps = (if patches = [] then None else Some patches)"
    "geometry mesh = Tetmesh3 (flatten 3 nodes) (flatten 4 tets) (flatten 3 faces)"
    by (auto simp: readTetgen_def ebind_eq_Inr Let_def split: prod.splits)
  with n e f p show ?thesis by blast
qed

subsection \<open>A missing .face file\<close>

lemma readTetgen_no_face:
  "readTetgen pf nf ef None cm pm pio \<noteq> Inr (Some r)"
  by (auto simp: readTetgen_def ebind_eq_Inr split: option.splits prod.splits)

text \<open>
  C3.  The claim: when the .node and the .ele file exist and the .face file does not,
  \<^verbatim>\<open>readTetgen\<close> returns the mesh with \<^verbatim>\<open>None\<close> for the boundary markers.  The code:
  without a .face file the variable \<^verbatim>\<open>faces\<close> is \<^verbatim>\<open>None\<close> when \<^verbatim>\<open>faces.flatten()\<close> is
  reached, and the call raises \<open>AttributeError\<close>; here on the example tetrahedron, and
  by \<open>readTetgen_no_face\<close> on every input.
\<close>

theorem readTetgen_without_face_file:
  "readTetgen py_int (Some ex_node) (Some ex_ele) None None None None = Inl AttributeError"
  by code_simp

subsection \<open>Comment lines between the records\<close>

text \<open>
  C6.  The claim: a line without content is passed over and the next line is read, so
  that every record the header declares is stored.  The code: the line without content
  uses up one of the \<^verbatim>\<open>nnodes\<close> iterations of the loop, so the last record of the file
  is never read; of the four nodes of the example the fourth stays unwritten.
\<close>

theorem readTetgen_comment_line_loses_record:
  "readTetgen py_int (Some ex_node_comment) (Some ex_ele) (Some ex_face) None None None =
     Inr (Some (\<lparr>geometry =
                   Tetmesh3 [Some 0, Some 0, Some 0, Some 1, Some 0, Some 0,
                             Some 0, Some 1, Some 0, None, None, None]
                            [Some 0, Some 1, Some 2, Some 3] [Some 0, Some 1, Some 2],
                 comps_of = [], patches_of = []\<rparr>,
                Some [7], Some [5]))"
  by code_simp

subsection \<open>The index shift\<close>

text \<open>
  C4.  The claim: a file set numbered from 1 and the same file set numbered from 0
  import to the same mesh, the shift being taken from the first record of the .node
  file.  The code: the shift is taken in the iteration \<^verbatim>\<open>nodeno == 0\<close> only; when the
  first line after the header is a comment, that iteration has passed, \<^verbatim>\<open>idxshift\<close>
  stays 0, and of two file sets that differ in the numbering alone the one numbered
  from 1 raises \<open>IndexError\<close> where the one numbered from 0 returns a mesh.
\<close>

theorem readTetgen_shift_after_comment:
  "readTetgen py_int (Some ex_node_lead1) (Some ex_ele) (Some ex_face) None None None =
     Inl IndexError
   \<and> readTetgen py_int (Some ex_node_lead0) (Some ex_ele0) (Some ex_face0) None None None =
     Inr (Some (\<lparr>geometry =
                   Tetmesh3 [Some 0, Some 0, Some 0, Some 1, Some 0, Some 0,
                             Some 0, Some 1, Some 0, None, None, None]
                            [Some 0, Some 1, Some 2, Some 3] [Some 0, Some 1, Some 2],
                 comps_of = [], patches_of = []\<rparr>,
                Some [7], Some [5]))"
  by code_simp


subsection \<open>The column of the region attribute\<close>

lemma readTetgen_ten_node_example:
  "readTetgen py_int (Some ex_node10) (Some ex_ele10) (Some ex_face) None None None =
     Inr (Some (\<lparr>geometry =
                   Tetmesh3 [Some 0, Some 0, Some 0, Some 2, Some 0, Some 0, Some 0, Some 2,
                             Some 0, Some 0, Some 0, Some 2, Some 1, Some 0, Some 0, Some 1,
                             Some 1, Some 0, Some 0, Some 1, Some 0, Some 0, Some 0, Some 1,
                             Some 1, Some 0, Some 1, Some 0, Some 1, Some 1]
                            [Some 0, Some 1, Some 2, Some 3] [Some 0, Some 1, Some 2],
                 comps_of = [], patches_of = []\<rparr>,
                Some [42], Some [5]))"
  by code_simp

lemma readTetgen_example:
  "readTetgen py_int (Some ex_node) (Some ex_ele) (Some ex_face) None None None =
     Inr (Some (\<lparr>geometry =
                   Tetmesh3 [Some 0, Some 0, Some 0, Some 1, Some 0, Some 0,
                             Some 0, Some 1, Some 0, Some 0, Some 0, Some 1]
                            [Some 0, Some 1, Some 2, Some 3] [Some 0, Some 1, Some 2],
                 comps_of = [], patches_of = []\<rparr>,
                Some [7], Some [5]))"
  by code_simp

text \<open>
  C5, as the claim has it: the region attribute is taken from token 5 of a record, for
  elements of four and of ten nodes.  It fails for ten nodes: the record of the example
  has 5 at token 5 and 42 at token 11, and \<^verbatim>\<open>readTetgen\<close> returns the attribute 42.
\<close>

theorem ten_node_attribute_is_not_token_5:
  "readTetgen py_int (Some ex_node10) (Some ex_ele10) (Some ex_face) None None None =
     Inr (Some (\<lparr>geometry =
                   Tetmesh3 [Some 0, Some 0, Some 0, Some 2, Some 0, Some 0, Some 0, Some 2,
                             Some 0, Some 0, Some 0, Some 2, Some 1, Some 0, Some 0, Some 1,
                             Some 1, Some 0, Some 0, Some 1, Some 0, Some 0, Some 0, Some 1,
                             Some 1, Some 0, Some 1, Some 0, Some 1, Some 1]
                            [Some 0, Some 1, Some 2, Some 3] [Some 0, Some 1, Some 2],
                 comps_of = [], patches_of = []\<rparr>,
                Some [42], Some [5]))
   \<and> map (\<lambda>ts. int_tok ts 5) (read_lines 1 (snd (readline ex_ele10))) = [Inr 5]
   \<and> map (\<lambda>ts. int_tok ts 11) (read_lines 1 (snd (readline ex_ele10))) = [Inr 42]"
  by code_simp

text \<open>
  C5, amended: when the header of the .ele file declares \<open>n\<close> elements of \<open>npt\<close> nodes
  with a region attribute, a call of \<^verbatim>\<open>readTetgen\<close> that returns has \<open>npt\<close> 4 or 10 and
  returns the \<open>n\<close> attributes of the \<open>n\<close> lines after the header, each the integer at
  token \<open>1 + npt\<close> of its line: token 5 for four nodes, token 11 for ten.
\<close>

theorem readTetgen_region_attribute_column:
  assumes "readTetgen pf (Some nf) (Some ef) ff cm pm pio = Inr (Some (mesh, cs, ps))"
    and "ele_declares ef n npt 1 body"
  shows "(npt = 4 \<or> npt = 10)
     \<and> (\<exists>comps. cs = Some comps
          \<and> map Inr comps = map (\<lambda>ts. int_tok ts (nat (1 + npt))) (read_lines (nat n) body))"
proof -
  from readTetgen_Inr[OF assms(1)] obtain s k tets comps where
    e: "read_ele s ef = Inr (k, tets, comps)"
    and cs: "cs = (if comps = [] then None else Some comps)"
    by blast
  from read_ele_Inr[OF assms(2) e] have "0 < n" "length comps = nat n" "npt = 4 \<or> npt = 10"
    by auto
  then have "comps \<noteq> []" by auto
  with cs read_ele_attributes[OF assms(2) e] \<open>npt = 4 \<or> npt = 10\<close> show ?thesis by simp
qed

theorem readTetgen_region_attribute_column_witness:
  "ele_declares ex_ele10 1 10 1 (snd (readline ex_ele10))
   \<and> (\<exists>mesh ps comps.
        readTetgen py_int (Some ex_node10) (Some ex_ele10) (Some ex_face) None None None
          = Inr (Some (mesh, Some comps, ps))
        \<and> map Inr comps = map (\<lambda>ts. int_tok ts 11) (read_lines 1 (snd (readline ex_ele10))))"
proof -
  have d: "ele_declares ex_ele10 1 10 1 (snd (readline ex_ele10))"
    by code_simp
  note r = readTetgen_ten_node_example
  from readTetgen_region_attribute_column[OF r d] r d show ?thesis
    by auto
qed

subsection \<open>The number of attributes\<close>

text \<open>
  C7.  When the header of the .ele file declares \<open>n\<close> elements with a region attribute
  and the loop has collected a number of attributes other than \<open>n\<close>, reading the file
  raises \<open>AssertionError\<close>, and a call of \<^verbatim>\<open>readTetgen\<close> that returns, returns \<open>n\<close>
  region attributes.  The same holds of the .face file, its \<open>m\<close> faces and their
  boundary markers.
\<close>

theorem readTetgen_attribute_count:
  "(ele_declares ef n npt 1 ebody \<longrightarrow>
      (\<forall>tets comps.
          ele_loop s (nat (1 + npt)) 1 (nat n) ebody (replicate (nat n) None, [])
            = Inr (tets, comps) \<and> length comps \<noteq> nat n
          \<longrightarrow> read_ele s ef = Inl AssertionError)
      \<and> (\<forall>mesh cs ps.
          readTetgen pf (Some nf) (Some ef) ff cm pm pio = Inr (Some (mesh, cs, ps))
          \<longrightarrow> (\<exists>comps. cs = Some comps \<and> length comps = nat n)))
   \<and> (face_declares f m 1 fbody \<longrightarrow>
      (\<forall>faces patches.
          face_loop s 1 (nat m) fbody (replicate (nat m) None, []) = Inr (faces, patches)
          \<and> length patches \<noteq> nat m
          \<longrightarrow> read_face s f = Inl AssertionError)
      \<and> (\<forall>mesh cs ps.
          readTetgen pf (Some nf) (Some ef) (Some f) cm pm pio = Inr (Some (mesh, cs, ps))
          \<longrightarrow> (\<exists>patches. ps = Some patches \<and> length patches = nat m)))"
proof (intro conjI impI allI)
  fix tets comps
  assume "ele_declares ef n npt 1 ebody"
    and "ele_loop s (nat (1 + npt)) 1 (nat n) ebody (replicate (nat n) None, [])
           = Inr (tets, comps) \<and> length comps \<noteq> nat n"
  then show "read_ele s ef = Inl AssertionError"
    using read_ele_mismatch by blast
next
  fix mesh cs ps
  assume d: "ele_declares ef n npt 1 ebody"
    and r: "readTetgen pf (Some nf) (Some ef) ff cm pm pio = Inr (Some (mesh, cs, ps))"
  from readTetgen_Inr[OF r] obtain s' k tets comps where
    e: "read_ele s' ef = Inr (k, tets, comps)"
    and cs: "cs = (if comps = [] then None else Some comps)"
    by blast
  from read_ele_Inr[OF d e] have "0 < n" "length comps = nat n" by auto
  with cs show "\<exists>comps. cs = Some comps \<and> length comps = nat n" by auto
next
  fix faces patches
  assume "face_declares f m 1 fbody"
    and "face_loop s 1 (nat m) fbody (replicate (nat m) None, []) = Inr (faces, patches)
           \<and> length patches \<noteq> nat m"
  then show "read_face s f = Inl AssertionError"
    using read_face_mismatch by blast
next
  fix mesh cs ps
  assume d: "face_declares f m 1 fbody"
    and r: "readTetgen pf (Some nf) (Some ef) (Some f) cm pm pio = Inr (Some (mesh, cs, ps))"
  from readTetgen_Inr[OF r] obtain s' k faces patches where
    e: "read_face s' f = Inr (k, faces, patches)"
    and ps: "ps = (if patches = [] then None else Some patches)"
    by auto
  from read_face_Inr[OF d e] have "0 < m" "length patches = nat m" by auto
  with ps show "\<exists>patches. ps = Some patches \<and> length patches = nat m" by auto
qed

theorem readTetgen_attribute_count_witness:
  "ele_declares ex_ele_blank 2 4 1 (snd (readline ex_ele_blank))
   \<and> ele_loop 1 5 1 2 (snd (readline ex_ele_blank)) (replicate 2 None, [])
       = Inr ([Some [0, 1, 2, 3], None], [7])
   \<and> read_ele 1 ex_ele_blank = Inl AssertionError
   \<and> ele_declares ex_ele 1 4 1 (snd (readline ex_ele))
   \<and> face_declares ex_face 1 1 (snd (readline ex_face))
   \<and> (\<exists>mesh comps patches.
        readTetgen py_int (Some ex_node) (Some ex_ele) (Some ex_face) None None None
          = Inr (Some (mesh, Some comps, Some patches))
        \<and> length comps = 1 \<and> length patches = 1)"
proof -
  have d1: "ele_declares ex_ele_blank 2 4 1 (snd (readline ex_ele_blank))"
    by code_simp
  have l1: "ele_loop 1 (nat (1 + 4)) 1 (nat 2) (snd (readline ex_ele_blank))
              (replicate (nat 2) None, []) = Inr ([Some [0, 1, 2, 3], None], [7])"
    by code_simp
  have d2: "ele_declares ex_ele 1 4 1 (snd (readline ex_ele))"
    by code_simp
  have d3: "face_declares ex_face 1 1 (snd (readline ex_face))"
    by code_simp
  note r = readTetgen_example
  note t1 = readTetgen_attribute_count[of ex_ele_blank 2 4 "snd (readline ex_ele_blank)" 1
      py_int ex_node None None None None ex_face 1 "snd (readline ex_face)"]
  note t2 = readTetgen_attribute_count[of ex_ele 1 4 "snd (readline ex_ele)" 1
      py_int ex_node "Some ex_face" None None None ex_face 1 "snd (readline ex_face)"]
  from t1 d1 l1 have f: "read_ele 1 ex_ele_blank = Inl AssertionError"
    by simp
  from t2 d2 d3 r have "\<exists>comps. Some [7::int] = Some comps \<and> length comps = nat 1"
    "\<exists>patches. Some [5::int] = Some patches \<and> length patches = nat 1" by blast+
  with r d1 d2 d3 f l1 show ?thesis by auto
qed

section \<open>Properties of the CUBIT importer\<close>


declare file_lines.simps [simp del]

declare cubit_node_loop.simps [simp del]

declare cubit_tet_loop.simps [simp del]

lemma readline_nonempty: "readline f = (l, f') \<Longrightarrow> f \<noteq> [] \<Longrightarrow> l \<noteq> []"
  by (cases f) (auto split: if_splits prod.splits)

lemma file_lines_Nil [simp]: "file_lines [] = []"
  by (simp add: file_lines.simps)

lemma file_lines_Cons: "f \<noteq> [] \<Longrightarrow> readline f = (l, f') \<Longrightarrow> file_lines f = l # file_lines f'"
  by (subst file_lines.simps) simp

lemma tokens_Nil [simp]: "py_split (replace_comma []) = []"
  by (simp add: py_split_def replace_comma_def)

lemma cubit_node_Inr:
  "cubit_node pf fmul scale ts = Inr node \<Longrightarrow>
   map Inr node = map (scaled_field pf fmul scale ts) [1, 2, 3]"
  by (auto simp: cubit_node_def scaled_field_def ebind_eq_Inr)

lemma cubit_element_Inr:
  "cubit_element ts = Inr el \<Longrightarrow> map Inr el = map (vertex_field ts) [1, 2, 3, 4]"
  by (auto simp: cubit_element_def vertex_field_def ebind_eq_Inr)

lemma cubit_node_loop_records:
  "cubit_node_loop pf fmul scale line f pnts = Inr (f', pnts') \<Longrightarrow>
   \<exists>recs marker.
     line # map (\<lambda>l. py_split (replace_comma l)) (file_lines f)
       = recs @ marker # map (\<lambda>l. py_split (replace_comma l)) (file_lines f')
     \<and> list_all is_node_record recs \<and> \<not> is_node_record marker
     \<and> map Inr pnts' =
         map Inr pnts @ concat (map (\<lambda>ts. map (scaled_field pf fmul scale ts) [1, 2, 3]) recs)"
proof (induction pf fmul scale line f pnts rule: cubit_node_loop.induct)
  case (1 pf fmul scale line f pnts)
  from "1.prems" obtain t ts where line: "line = t # ts"
    by (cases line) (auto simp: cubit_node_loop.simps)
  show ?case
  proof (cases "t = ''*ELEMENT''")
    case True
    with "1.prems" line have "f' = f" "pnts' = pnts"
      by (auto simp: cubit_node_loop.simps)
    moreover have "\<not> is_node_record line" using line True by (simp add: is_node_record_def)
    ultimately show ?thesis
      by (intro exI[of _ "[]"] exI[of _ line]) simp
  next
    case False
    obtain l f1 where rl: "readline f = (l, f1)" by (cases "readline f")
    from "1.prems" line False rl obtain node where
      node: "cubit_node pf fmul scale line = Inr node"
      and rec: "cubit_node_loop pf fmul scale (py_split (replace_comma l)) f1 (pnts @ node)
                = Inr (f', pnts')"
      by (subst (asm) cubit_node_loop.simps) (auto split: sum.splits)
    have fne: "f \<noteq> []"
    proof
      assume "f = []"
      with rl have "l = []" "f1 = []" by auto
      with rec show False by (simp add: cubit_node_loop.simps)
    qed
    from "1.IH"[OF line False node rl[symmetric] rec] obtain recs marker where
      IH: "py_split (replace_comma l) # map (\<lambda>l. py_split (replace_comma l)) (file_lines f1)
           = recs @ marker # map (\<lambda>l. py_split (replace_comma l)) (file_lines f')"
        "list_all is_node_record recs" "\<not> is_node_record marker"
        "map Inr pnts' = map Inr (pnts @ node)
           @ concat (map (\<lambda>ts. map (scaled_field pf fmul scale ts) [1, 2, 3]) recs)"
      by blast
    have nr: "is_node_record line" using line False by (simp add: is_node_record_def)
    from IH nr cubit_node_Inr[OF node] file_lines_Cons[OF fne rl] show ?thesis
      by (intro exI[of _ "line # recs"] exI[of _ marker]) simp
  qed
qed

lemma cubit_tet_loop_records:
  "cubit_tet_loop line f tets = Inr tets' \<Longrightarrow>
   map Inr tets' =
   map Inr tets @ concat (map (\<lambda>ts. map (vertex_field ts) [1, 2, 3, 4])
     (map (\<lambda>l. py_split (replace_comma l)) (if line = [] then [] else line # file_lines f)))"
proof (induction line f tets rule: cubit_tet_loop.induct)
  case (1 line f tets)
  show ?case
  proof (cases "line = []")
    case True
    with "1.prems" show ?thesis by (simp add: cubit_tet_loop.simps)
  next
    case False
    obtain l f1 where rl: "readline f = (l, f1)" by (cases "readline f")
    from "1.prems" False rl obtain el where
      el: "cubit_element (py_split (replace_comma line)) = Inr el"
      and rec: "cubit_tet_loop l f1 (tets @ el) = Inr tets'"
      by (subst (asm) cubit_tet_loop.simps) (auto split: sum.splits)
    have fl: "file_lines f = (if l = [] then [] else l # file_lines f1)"
    proof (cases "f = []")
      case True
      with rl show ?thesis by auto
    next
      case ne: False
      from readline_nonempty[OF rl ne] file_lines_Cons[OF ne rl] show ?thesis by simp
    qed
    from "1.IH"[OF False el rl[symmetric] rec] cubit_element_Inr[OF el] fl False
    show ?thesis by simp
  qed
qed


text \<open>
  C8.  When \<^verbatim>\<open>readCubit\<close> returns a mesh, the coordinates it gave to the engine are, in
  the order of the node records of the file, fields 1, 2 and 3 of each record times the
  scale, and the vertex indices are, in the order of the element records, fields 1 to 4
  of each record less 1; field 0, the id of a record, has no part in either.
\<close>

theorem readCubit_scale_and_decrement:
  assumes "readCubit pf fmul (Some f) scale = Inr mesh"
  shows "\<exists>pnts tets. geometry mesh = Tetmesh2 pnts tets
     \<and> map Inr pnts =
         concat (map (\<lambda>ts. map (scaled_field pf fmul scale ts) [1, 2, 3]) (node_records f))
     \<and> map Inr tets =
         concat (map (\<lambda>ts. map (vertex_field ts) [1, 2, 3, 4]) (element_records f))"
proof -
  let ?tk = "\<lambda>l. py_split (replace_comma l)"
  obtain l1 f1 where r1: "readline f = (l1, f1)" by (cases "readline f")
  obtain l2 f2 where r2: "readline f1 = (l2, f2)" by (cases "readline f1")
  obtain l3 f3 where r3: "readline f2 = (l3, f3)" by (cases "readline f2")
  obtain l4 f4 where r4: "readline f3 = (l4, f4)" by (cases "readline f3")
  from assms r1 r2 r3 r4 have h1: "l1 = ''*HEADING\<newline>''" and h3: "l3 = ''*NODE\<newline>''"
    by (auto simp: readCubit_def ebind_eq_Inr)
  from assms r1 r2 r3 r4 h1 h3 obtain f5 pnts where
    nl: "cubit_node_loop pf fmul scale (?tk l4) f4 [] = Inr (f5, pnts)"
    by (auto simp: readCubit_def ebind_eq_Inr)
  obtain l5 f6 where r5: "readline f5 = (l5, f6)" by (cases "readline f5")
  from assms r1 r2 r3 r4 h1 h3 nl r5 obtain tets where
    tl: "cubit_tet_loop l5 f6 [] = Inr tets"
    and g: "geometry mesh = Tetmesh2 pnts tets"
    by (auto simp: readCubit_def ebind_eq_Inr Let_def)
  have ne: "f \<noteq> []" "f1 \<noteq> []" "f2 \<noteq> []"
    using r1 r2 r3 h1 h3 by auto
  have f3ne: "f3 \<noteq> []"
  proof
    assume "f3 = []"
    with r4 nl show False by (simp add: cubit_node_loop.simps)
  qed
  have fl: "drop 3 (file_lines f) = l4 # file_lines f4"
    using file_lines_Cons[OF ne(1) r1] file_lines_Cons[OF ne(2) r2]
      file_lines_Cons[OF ne(3) r3] file_lines_Cons[OF f3ne r4] by simp
  from cubit_node_loop_records[OF nl] obtain recs marker where
    recs: "?tk l4 # map ?tk (file_lines f4) = recs @ marker # map ?tk (file_lines f5)"
      "list_all is_node_record recs" "\<not> is_node_record marker"
      "map Inr pnts = concat (map (\<lambda>ts. map (scaled_field pf fmul scale ts) [1, 2, 3]) recs)"
    by auto
  have cr: "cubit_records f = recs @ marker # map ?tk (file_lines f5)"
    using fl recs(1) by (simp add: cubit_records_def)
  have nr: "node_records f = recs"
    using recs(2,3) by (simp add: node_records_def cr list_all_iff takeWhile_append2)
  have fl5: "file_lines f5 = (if l5 = [] then [] else l5 # file_lines f6)"
  proof (cases "f5 = []")
    case True
    with r5 show ?thesis by auto
  next
    case False
    from readline_nonempty[OF r5 False] file_lines_Cons[OF False r5] show ?thesis by simp
  qed
  have er: "element_records f = map ?tk (file_lines f5)"
    by (simp add: element_records_def nr cr)
  from cubit_tet_loop_records[OF tl] fl5 have
    "map Inr tets = concat (map (\<lambda>ts. map (vertex_field ts) [1, 2, 3, 4]) (element_records f))"
    by (simp add: er)
  with g recs(4) nr show ?thesis by blast
qed


text \<open>
  On the example, with exact rational arithmetic in the place of floating point: the
  node \<open>(1, 2, 3)\<close> at the scale \<open>1/1000000\<close>, the vertex reference 5, and 7 for the
  id of the first node.
\<close>

theorem readCubit_scale_and_decrement_witness:
  "readCubit (\<lambda>s. map_option rat_of_int (py_int s)) (*) (Some ex_cubit) (1 / 1000000) =
     Inr \<lparr>geometry =
            Tetmesh2 [1 / 1000000, 2 / 1000000, 3 / 1000000, 0, 0, 0, 1 / 1000000, 0, 0,
                      0, 1 / 1000000, 0, 0, 0, 1 / 1000000] [1, 2, 3, 4],
          comps_of = [], patches_of = []\<rparr>
   \<and> map Inr [1 / 1000000, 2 / 1000000, 3 / 1000000, 0, 0, 0, 1 / 1000000, 0, 0,
               0, 1 / 1000000, 0, 0, 0, 1 / 1000000] =
       concat (map (\<lambda>ts. map (scaled_field (\<lambda>s. map_option rat_of_int (py_int s)) (*)
                                  (1 / 1000000) ts) [1, 2, 3]) (node_records ex_cubit))
   \<and> map Inr [1, 2, 3, 4] =
       concat (map (\<lambda>ts. map (vertex_field ts) [1, 2, 3, 4]) (element_records ex_cubit))"
proof -
  have r: "readCubit (\<lambda>s. map_option rat_of_int (py_int s)) (*) (Some ex_cubit) (1 / 1000000) =
     Inr \<lparr>geometry =
            Tetmesh2 [1 / 1000000, 2 / 1000000, 3 / 1000000, 0, 0, 0, 1 / 1000000, 0, 0,
                      0, 1 / 1000000, 0, 0, 0, 1 / 1000000] [1, 2, 3, 4],
          comps_of = [], patches_of = []\<rparr>"
    by code_simp
  from readCubit_scale_and_decrement[OF r] r show ?thesis
    by simp
qed

section \<open>Properties of the canonical files\<close>


subsection \<open>Lines\<close>

lemma readline_append:
  "newline \<notin> set l \<Longrightarrow> readline (l @ newline # rest) = (l @ [newline], rest)"
  by (induction l) auto

lemma readline_xml_line [simp]:
  "newline \<notin> set body \<Longrightarrow> readline (xml_line k body @ rest) = (xml_line k body, rest)"
  using readline_append[of "replicate k (CHR 0x09) @ body" rest]
  by (simp add: xml_line_def newline_def)

lemma py_rstrip_keep: "s \<noteq> [] \<Longrightarrow> \<not> is_space (last s) \<Longrightarrow> py_rstrip s = s"
  by (cases s rule: rev_cases) (simp_all add: py_rstrip_def)

lemma py_rstrip_newline: "py_rstrip (s @ [newline]) = py_rstrip s"
  by (simp add: py_rstrip_def is_space_def newline_def)

lemma dropWhile_tabs:
  "body \<noteq> [] \<Longrightarrow> \<not> is_space (hd body) \<Longrightarrow>
   dropWhile is_space (replicate k (CHR 0x09) @ body @ r) = body @ r"
  by (induction k) (auto simp: is_space_def neq_Nil_conv)

lemma py_strip_xml_line [simp]:
  assumes "body \<noteq> []" "\<not> is_space (hd body)" "\<not> is_space (last body)"
  shows "py_strip (xml_line k body) = body"
proof -
  have "py_strip (xml_line k body) = py_rstrip (body @ [newline])"
    using dropWhile_tabs[OF assms(1,2), of k "[newline]"] by (simp add: py_strip_def xml_line_def)
  also have "\<dots> = body" using assms by (simp add: py_rstrip_newline py_rstrip_keep)
  finally show ?thesis .
qed

lemma py_rstrip_xml_line0:
  assumes "body \<noteq> []" "\<not> is_space (last body)"
  shows "py_rstrip (xml_line 0 body) = body"
  using assms by (simp add: xml_line_def py_rstrip_newline py_rstrip_keep)

subsection \<open>Elements\<close>

lemma take_elem: "length opn = a \<Longrightarrow> take a (elem opn cls c) = opn"
  by (simp add: elem_def)

lemma slice_last_elem: "length cls = b \<Longrightarrow> slice_last b (elem opn cls c) = cls"
  by (simp add: elem_def slice_last_def)

lemma slice_mid_elem:
  "length opn = a \<Longrightarrow> length cls = b \<Longrightarrow> slice_mid a b (elem opn cls c) = c"
  by (simp add: elem_def slice_mid_def)

lemma elem_Nil [simp]: "elem opn cls c = [] \<longleftrightarrow> opn = [] \<and> c = [] \<and> cls = []"
  by (simp add: elem_def)

lemma hd_elem: "opn \<noteq> [] \<Longrightarrow> hd (elem opn cls c) = hd opn"
  by (simp add: elem_def)

lemma last_elem: "cls \<noteq> [] \<Longrightarrow> last (elem opn cls c) = last cls"
  by (simp add: elem_def)

lemma set_elem: "set (elem opn cls c) = set opn \<union> set c \<union> set cls"
  by (auto simp: elem_def)

lemma length_elem: "length (elem opn cls c) = length opn + length c + length cls"
  by (simp add: elem_def)

lemma read_content_elem:
  assumes "length opn = a" "length cls = b" "opn \<noteq> []" "cls \<noteq> []"
    "\<not> is_space (hd opn)" "\<not> is_space (last cls)"
    "newline \<notin> set opn" "newline \<notin> set cls" "newline \<notin> set c"
  shows "read_content opn a cls b (xml_line k (elem opn cls c) @ rest) = Inr (c, rest)"
  using assms
  by (simp add: read_content_def set_elem hd_elem last_elem take_elem slice_last_elem
        slice_mid_elem)

lemma expect_line_xml_line:
  assumes "s \<noteq> []" "\<not> is_space (hd s)" "\<not> is_space (last s)" "newline \<notin> set s"
  shows "expect_line s (xml_line k s @ rest) = Inr rest"
  using assms by (simp add: expect_line_def)


end
